theory Spec2Isabelle
  imports Complex_Main "HOL-Library.AList"
begin

section \<open>JavaScript numbers and errors\<close>

text \<open>
  A JavaScript \<open>number\<close> is a finite double, one of the two infinities, or NaN. A finite
  double is the real number it denotes (the sign of zero is not kept). Comparisons of
  numbers are exact and are defined here; what the operators \<open>+ - * /\<close> and the functions
  of \<open>Math\<close> return is the business of the engine that runs the code, see \<open>Engine\<close> below.
\<close>

datatype number = Num real | Infinity | NegInfinity | NaN

text \<open>\<open>a <= b\<close> and \<open>a < b\<close> on numbers: every comparison with NaN is false.\<close>

fun num_le :: "number \<Rightarrow> number \<Rightarrow> bool" where
  "num_le NaN _ = False"
| "num_le _ NaN = False"
| "num_le NegInfinity _ = True"
| "num_le _ Infinity = True"
| "num_le (Num a) (Num b) = (a \<le> b)"
| "num_le _ _ = False"

fun num_less :: "number \<Rightarrow> number \<Rightarrow> bool" where
  "num_less NaN _ = False"
| "num_less _ NaN = False"
| "num_less (Num a) (Num b) = (a < b)"
| "num_less NegInfinity NegInfinity = False"
| "num_less NegInfinity _ = True"
| "num_less Infinity _ = False"
| "num_less (Num a) Infinity = True"
| "num_less (Num a) NegInfinity = False"

fun isNaN :: "number \<Rightarrow> bool" where
  "isNaN NaN = True"
| "isNaN _ = False"

text \<open>The real behind a finite number (0 for the others, where it is not read).\<close>

fun finite_value :: "number \<Rightarrow> real" where
  "finite_value (Num r) = r"
| "finite_value _ = 0"

text \<open>
  \<open>Math.round\<close> is specified exactly: the integer nearest to its argument, the one towards
  plus infinity of two equally near; NaN and the infinities are returned as they are.
\<close>

fun Math_round :: "number \<Rightarrow> number" where
  "Math_round (Num x) = Num (real_of_int \<lfloor>x + 1 / 2\<rfloor>)"
| "Math_round n = n"

text \<open>
  The arithmetic the code runs on: the four operators on doubles and the functions and
  constant of \<open>Math\<close> that the code calls. They belong to the JavaScript engine, not to the
  repository, and every operation of the model that computes takes them as the argument
  \<open>E\<close>. The operators of an engine that follows IEEE 754 are defined in the section on
  double arithmetic; \<open>Math.sin\<close>, \<open>Math.cos\<close>, \<open>Math.sqrt\<close> and \<open>Math.atan2\<close> are approximations
  that ECMAScript leaves to the implementation.
\<close>

record Engine =
  num_add :: "number \<Rightarrow> number \<Rightarrow> number"
  num_sub :: "number \<Rightarrow> number \<Rightarrow> number"
  num_mul :: "number \<Rightarrow> number \<Rightarrow> number"
  num_div :: "number \<Rightarrow> number \<Rightarrow> number"
  Math_sin :: "number \<Rightarrow> number"
  Math_cos :: "number \<Rightarrow> number"
  Math_sqrt :: "number \<Rightarrow> number"
  Math_atan2 :: "number \<Rightarrow> number \<Rightarrow> number"
  Math_PI :: number

text \<open>The idiom \<open>Math.round(x * 100) / 100\<close> used for every two-decimal output.\<close>

definition round2 :: "Engine \<Rightarrow> number \<Rightarrow> number" where
  "round2 E x = num_div E (Math_round (num_mul E x (Num 100))) (Num 100)"

record ValidationError =
  field :: string
  message :: string

text \<open>
  The exceptions of the code. \<open>Error m\<close> is a plain \<open>new Error(m)\<close>; where the source
  interpolates a number into the message, the number is left out of \<open>m\<close>.
  \<open>ResourceNotFoundError\<close> carries the resource type and id, \<open>UnsupportedLocationError\<close>
  the message prefix and the two coordinates interpolated into its message.
  \<open>CacheTypeMismatch\<close> is not an exception of the code: it stands for a cache entry whose
  shape is not the one the unchecked cast \<open>cache.get<T>\<close> assumes.
\<close>

datatype error =
    Error string
  | ValidationException "ValidationError list"
  | ResourceNotFoundError string string
  | NoWarehousesFoundError
  | UnsupportedLocationError string number number
  | CacheTypeMismatch

section \<open>Distance calculator\<close>

definition toRadians :: "Engine \<Rightarrow> number \<Rightarrow> number" where
  "toRadians E degrees = num_mul E degrees (num_div E (Math_PI E) (Num 180))"

text \<open>The \<open>typeof\<close> tests of \<open>isValidCoordinate\<close> hold of every value of type \<open>number\<close>.\<close>

definition isValidCoordinate :: "number \<Rightarrow> number \<Rightarrow> bool" where
  "isValidCoordinate lat lon =
     (\<not> isNaN lat \<and> \<not> isNaN lon \<and>
      num_le (Num (- 90)) lat \<and> num_le lat (Num 90) \<and>
      num_le (Num (- 180)) lon \<and> num_le lon (Num 180))"

text \<open>
  The haversine formula as the source writes it, every operator and \<open>Math\<close> call being the
  engine's. The result is a number: nothing in the code keeps it from being NaN.
\<close>

definition calculateDistance ::
  "Engine \<Rightarrow> number \<Rightarrow> number \<Rightarrow> number \<Rightarrow> number \<Rightarrow> error + number" where
  "calculateDistance E lat1 lon1 lat2 lon2 =
     (if \<not> isValidCoordinate lat1 lon1 \<or> \<not> isValidCoordinate lat2 lon2
      then Inl (Error ''Invalid coordinates provided'')
      else
        let R = Num 6371;
            dLat = toRadians E (num_sub E lat2 lat1);
            dLon = toRadians E (num_sub E lon2 lon1);
            a = num_add E
                  (num_mul E (Math_sin E (num_div E dLat (Num 2)))
                             (Math_sin E (num_div E dLat (Num 2))))
                  (num_mul E
                     (num_mul E
                        (num_mul E (Math_cos E (toRadians E lat1))
                                   (Math_cos E (toRadians E lat2)))
                        (Math_sin E (num_div E dLon (Num 2))))
                     (Math_sin E (num_div E dLon (Num 2))));
            c = num_mul E (Num 2)
                  (Math_atan2 E (Math_sqrt E a) (Math_sqrt E (num_sub E (Num 1) a)));
            distance = num_mul E R c
        in Inr distance)"

text \<open>
  The words of the specification for a valid component: a finite number within the closed
  range. The code's check is compared with it below.
\<close>

definition finite_within :: "real \<Rightarrow> real \<Rightarrow> number \<Rightarrow> bool" where
  "finite_within lo hi n = (case n of Num r \<Rightarrow> lo \<le> r \<and> r \<le> hi | _ \<Rightarrow> False)"

section \<open>Transport strategy\<close>

datatype TransportStrategy = AeroplaneStrategy | TruckStrategy | MiniVanStrategy

fun getRate :: "TransportStrategy \<Rightarrow> number" where
  "getRate AeroplaneStrategy = Num 1.0"
| "getRate TruckStrategy = Num 2.0"
| "getRate MiniVanStrategy = Num 3.0"

fun getMinDistance :: "TransportStrategy \<Rightarrow> number" where
  "getMinDistance AeroplaneStrategy = Num 500"
| "getMinDistance TruckStrategy = Num 100"
| "getMinDistance MiniVanStrategy = Num 0"

fun getMaxDistance :: "TransportStrategy \<Rightarrow> number option" where
  "getMaxDistance AeroplaneStrategy = None"
| "getMaxDistance TruckStrategy = Some (Num 499.99)"
| "getMaxDistance MiniVanStrategy = Some (Num 99.99)"

fun getMode :: "TransportStrategy \<Rightarrow> string" where
  "getMode AeroplaneStrategy = ''Aeroplane''"
| "getMode TruckStrategy = ''Truck''"
| "getMode MiniVanStrategy = ''Mini Van''"

fun canHandle :: "TransportStrategy \<Rightarrow> number \<Rightarrow> bool" where
  "canHandle AeroplaneStrategy distance = num_le (getMinDistance AeroplaneStrategy) distance"
| "canHandle TruckStrategy distance =
     (num_le (getMinDistance TruckStrategy) distance \<and> num_less distance (Num 500))"
| "canHandle MiniVanStrategy distance =
     (num_le (getMinDistance MiniVanStrategy) distance \<and> num_less distance (Num 100))"

text \<open>The selector's list, in the constructor's order: longest distance first.\<close>

definition strategies :: "TransportStrategy list" where
  "strategies = [AeroplaneStrategy, TruckStrategy, MiniVanStrategy]"

definition selectStrategy :: "number \<Rightarrow> error + TransportStrategy" where
  "selectStrategy distance =
     (if num_less distance (Num 0) then Inl (Error ''Distance cannot be negative'')
      else case find (\<lambda>strategy. canHandle strategy distance) strategies of
             Some strategy \<Rightarrow> Inr strategy
           | None \<Rightarrow> Inl (Error ''No transport mode available for distance''))"

definition getTransportModeAndRate :: "number \<Rightarrow> error + (string \<times> number)" where
  "getTransportModeAndRate distance =
     (case selectStrategy distance of
        Inl e \<Rightarrow> Inl e
      | Inr strategy \<Rightarrow> Inr (getMode strategy, getRate strategy))"

section \<open>Cache manager\<close>

text \<open>
  The cache is a JavaScript \<open>Map\<close> from keys to entries: an association list in insertion
  order, in which \<open>Map.set\<close> replaces the entry of a key already present and appends a new
  key, as \<open>AList.update\<close> does. \<open>Date.now()\<close> is the argument \<open>now\<close> (epoch milliseconds)
  of every operation that reads the clock. An optional TTL is \<open>None\<close> when the argument is
  omitted.
\<close>

record 'v CacheEntry =
  val :: 'v
  expiresAt :: int

record 'v CacheManager =
  cache :: "(string \<times> 'v CacheEntry) list"
  hits :: nat
  misses :: nat
  defaultTTL :: int

record CacheStats =
  stats_hits :: nat
  stats_misses :: nat
  stats_size :: nat
  hitRate :: real

text \<open>The state the private constructor builds.\<close>

definition new_CacheManager :: "'v CacheManager" where
  "new_CacheManager = \<lparr>cache = [], hits = 0, misses = 0, defaultTTL = 300000\<rparr>"

text \<open>\<open>ttl || this.defaultTTL\<close>: an omitted TTL and a TTL of 0 are both falsy.\<close>

definition ttl_or_default :: "int option \<Rightarrow> int \<Rightarrow> int" where
  "ttl_or_default ttl dflt = (case ttl of None \<Rightarrow> dflt | Some t \<Rightarrow> if t = 0 then dflt else t)"

definition cache_set :: "string \<Rightarrow> 'v \<Rightarrow> int option \<Rightarrow> int \<Rightarrow> 'v CacheManager \<Rightarrow> 'v CacheManager" where
  "cache_set key v ttl now c =
     (let expires = now + ttl_or_default ttl (defaultTTL c)
      in c\<lparr>cache := AList.update key \<lparr>val = v, expiresAt = expires\<rparr> (cache c)\<rparr>)"

definition cache_get :: "string \<Rightarrow> int \<Rightarrow> 'v CacheManager \<Rightarrow> 'v option \<times> 'v CacheManager" where
  "cache_get key now c =
     (case map_of (cache c) key of
        None \<Rightarrow> (None, c\<lparr>misses := misses c + 1\<rparr>)
      | Some entry \<Rightarrow>
          if now > expiresAt entry
          then (None, c\<lparr>cache := AList.delete key (cache c), misses := misses c + 1\<rparr>)
          else (Some (val entry), c\<lparr>hits := hits c + 1\<rparr>))"

definition cache_has :: "string \<Rightarrow> int \<Rightarrow> 'v CacheManager \<Rightarrow> bool \<times> 'v CacheManager" where
  "cache_has key now c =
     (case map_of (cache c) key of
        None \<Rightarrow> (False, c)
      | Some entry \<Rightarrow>
          if now > expiresAt entry
          then (False, c\<lparr>cache := AList.delete key (cache c)\<rparr>)
          else (True, c))"

definition cache_delete :: "string \<Rightarrow> 'v CacheManager \<Rightarrow> bool \<times> 'v CacheManager" where
  "cache_delete key c =
     (map_of (cache c) key \<noteq> None, c\<lparr>cache := AList.delete key (cache c)\<rparr>)"

definition clear :: "'v CacheManager \<Rightarrow> 'v CacheManager" where
  "clear c = c\<lparr>cache := [], hits := 0, misses := 0\<rparr>"

definition cleanup :: "int \<Rightarrow> 'v CacheManager \<Rightarrow> nat \<times> 'v CacheManager" where
  "cleanup now c =
     (length (filter (\<lambda>(key, entry). now > expiresAt entry) (cache c)),
      c\<lparr>cache := filter (\<lambda>(key, entry). \<not> now > expiresAt entry) (cache c)\<rparr>)"

definition getStats :: "'v CacheManager \<Rightarrow> CacheStats" where
  "getStats c =
     (let total = hits c + misses c
      in \<lparr>stats_hits = hits c, stats_misses = misses c, stats_size = length (cache c),
          hitRate = (if total > 0 then real (hits c) / real total else 0)\<rparr>)"

definition resetStats :: "'v CacheManager \<Rightarrow> 'v CacheManager" where
  "resetStats c = c\<lparr>hits := 0, misses := 0\<rparr>"

text \<open>JavaScript truthiness of an optional string: absent and empty are falsy.\<close>

fun truthy :: "string option \<Rightarrow> bool" where
  "truthy None = False"
| "truthy (Some s) = (s \<noteq> [])"

text \<open>The keys of \<open>CacheKeyBuilder\<close>.\<close>

definition nearestWarehouse_key :: "string \<Rightarrow> string" where
  "nearestWarehouse_key sellerId = ''nearest_warehouse:seller:'' @ sellerId"

definition shippingCharge_key :: "string \<Rightarrow> string \<Rightarrow> string \<Rightarrow> string option \<Rightarrow> string" where
  "shippingCharge_key warehouseId customerId deliverySpeed productId =
     (let base = ''shipping_charge:'' @ warehouseId @ '':'' @ customerId @ '':'' @ deliverySpeed
      in case productId of
           None \<Rightarrow> base
         | Some p \<Rightarrow> if truthy productId then base @ '':'' @ p else base)"

definition calculation_key :: "string \<Rightarrow> string \<Rightarrow> string \<Rightarrow> string option \<Rightarrow> string" where
  "calculation_key sellerId customerId deliverySpeed productId =
     (let base = ''calculation:'' @ sellerId @ '':'' @ customerId @ '':'' @ deliverySpeed
      in case productId of
           None \<Rightarrow> base
         | Some p \<Rightarrow> if truthy productId then base @ '':'' @ p else base)"

section \<open>Validation\<close>

definition validateCoordinates :: "number \<Rightarrow> number \<Rightarrow> string \<Rightarrow> error + bool" where
  "validateCoordinates lat lon fieldPrefix =
     (let errors_lat =
            (if isNaN lat
             then [\<lparr>field = fieldPrefix @ ''latitude'',
                    message = fieldPrefix @ ''latitude must be a valid number''\<rparr>]
             else if num_less lat (Num (- 90)) \<or> num_less (Num 90) lat
             then [\<lparr>field = fieldPrefix @ ''latitude'',
                    message = fieldPrefix @ ''latitude must be between -90 and 90 degrees''\<rparr>]
             else []);
          errors_lon =
            (if isNaN lon
             then [\<lparr>field = fieldPrefix @ ''longitude'',
                    message = fieldPrefix @ ''longitude must be a valid number''\<rparr>]
             else if num_less lon (Num (- 180)) \<or> num_less (Num 180) lon
             then [\<lparr>field = fieldPrefix @ ''longitude'',
                    message = fieldPrefix @ ''longitude must be between -180 and 180 degrees''\<rparr>]
             else []);
          errors = errors_lat @ errors_lon
      in if length errors > 0 then Inl (ValidationException errors) else Inr True)"

section \<open>Shipping service\<close>

text \<open>
  Sellers, customers and the warehouse fetched by id have the same four columns; a warehouse
  of the active list has its city as well.
\<close>

record Entity =
  entity_id :: string
  name :: string
  latitude :: number
  longitude :: number

record Warehouse = Entity +
  city :: "string option"

record Product =
  product_weight_kg :: number

record DeliverySpeedConfig =
  speed_type :: string
  base_charge :: number
  extra_charge_per_kg :: number

record NearestWarehouseResult =
  warehouseId :: string
  warehouseLocation :: "number \<times> number"
  warehouseName :: string
  nearest_distance_km :: number

record Breakdown =
  baseCharge :: number
  transportCharge :: number
  expressCharge :: number

record ShippingChargeResult =
  shippingCharge :: number
  transportMode :: string
  distance_km :: number
  weight_kg :: number
  breakdown :: Breakdown

record CompleteShippingResult = ShippingChargeResult +
  nearestWarehouse :: "string \<times> (number \<times> number) \<times> string"

text \<open>
  A database answer \<open>{ data, error }\<close>, and the queries the service sends, each a function
  of the value it filters on. The database does not change during one operation.
\<close>

record 'a Response =
  data :: "'a option"
  error_message :: "string option"

record Supabase =
  seller_by_id :: "string \<Rightarrow> Entity Response"
  active_warehouses :: "Warehouse list Response"
  warehouse_by_id :: "string \<Rightarrow> Entity Response"
  customer_by_id :: "string \<Rightarrow> Entity Response"
  delivery_speed_by_type :: "string \<Rightarrow> DeliverySpeedConfig Response"
  product_by_id :: "string \<Rightarrow> Product Response"

text \<open>The one shared cache holds the results of all three operations.\<close>

datatype cached =
    CachedNearest NearestWarehouseResult
  | CachedCharge ShippingChargeResult
  | CachedComplete CompleteShippingResult

text \<open>
  The loop of \<open>findNearestWarehouse\<close> over the warehouses, on the pair
  \<open>(nearest, minDistance)\<close> (the source's \<open>nearestWarehouse\<close> and \<open>minDistance\<close>); an
  exception of \<open>calculateDistance\<close> leaves the loop. A distance that is NaN is never less
  than \<open>minDistance\<close>.
\<close>

fun nearest_loop ::
  "Engine \<Rightarrow> Entity \<Rightarrow> Warehouse list \<Rightarrow> Warehouse option \<times> number \<Rightarrow>
   error + (Warehouse option \<times> number)" where
  "nearest_loop E seller [] st = Inr st"
| "nearest_loop E seller (warehouse # rest) (nearest, minDistance) =
     (case calculateDistance E (latitude seller) (longitude seller)
             (latitude warehouse) (longitude warehouse) of
        Inl e \<Rightarrow> Inl e
      | Inr distance \<Rightarrow>
          if num_less distance minDistance
          then nearest_loop E seller rest (Some warehouse, distance)
          else nearest_loop E seller rest (nearest, minDistance))"

definition findNearestWarehouse ::
  "Engine \<Rightarrow> Supabase \<Rightarrow> string \<Rightarrow> int \<Rightarrow> int \<Rightarrow> cached CacheManager \<Rightarrow>
   (error + NearestWarehouseResult) \<times> cached CacheManager" where
  "findNearestWarehouse E supabase sellerId now_get now_set c0 =
     (let cacheKey = nearestWarehouse_key sellerId;
          (cached, c) = cache_get cacheKey now_get c0
      in case cached of
           Some (CachedNearest r) \<Rightarrow> (Inr r, c)
         | Some _ \<Rightarrow> (Inl CacheTypeMismatch, c)
         | None \<Rightarrow>
           let sellerResponse = seller_by_id supabase sellerId in
           (case data sellerResponse of
              None \<Rightarrow> (Inl (ResourceNotFoundError ''Seller'' sellerId), c)
            | Some seller \<Rightarrow>
              if error_message sellerResponse \<noteq> None
              then (Inl (ResourceNotFoundError ''Seller'' sellerId), c)
              else
              (case validateCoordinates (latitude seller) (longitude seller) ''seller.'' of
                 Inl validationError \<Rightarrow>
                   (Inl (UnsupportedLocationError ''Invalid seller coordinates''
                           (latitude seller) (longitude seller)), c)
               | Inr _ \<Rightarrow>
                 let warehouseResponse = active_warehouses supabase in
                 (case error_message warehouseResponse of
                    Some msg \<Rightarrow> (Inl (Error (''Database error fetching warehouses: '' @ msg)), c)
                  | None \<Rightarrow>
                    (case data warehouseResponse of
                       None \<Rightarrow> (Inl NoWarehousesFoundError, c)
                     | Some warehouses \<Rightarrow>
                       if length warehouses = 0 then (Inl NoWarehousesFoundError, c)
                       else
                       (case nearest_loop E seller warehouses (None, Infinity) of
                          Inl e \<Rightarrow> (Inl e, c)
                        | Inr (nearest, minDistance) \<Rightarrow>
                          (case nearest of
                             None \<Rightarrow> (Inl (Error ''Could not determine nearest warehouse''), c)
                           | Some w \<Rightarrow>
                             let result =
                                   \<lparr>warehouseId = entity_id w,
                                    warehouseLocation = (latitude w, longitude w),
                                    warehouseName = name w,
                                    nearest_distance_km = round2 E minDistance\<rparr>
                             in (Inr result,
                                 cache_set cacheKey (CachedNearest result) (Some 300000) now_set c))))))))"

text \<open>
  The weight of \<open>calculateShippingCharge\<close>: 1 kg, replaced by the product's weight when a
  truthy \<open>productId\<close> is given and the query returns a record. The query's error is not read.
\<close>

definition resolve_weight :: "Supabase \<Rightarrow> string option \<Rightarrow> number" where
  "resolve_weight supabase productId =
     (case productId of
        None \<Rightarrow> Num 1
      | Some p \<Rightarrow>
          if truthy productId
          then (case data (product_by_id supabase p) of
                  Some product \<Rightarrow> product_weight_kg product
                | None \<Rightarrow> Num 1)
          else Num 1)"

text \<open>
  The charges of \<open>calculateShippingCharge\<close> and the result record built from them
  (\<open>Number(...)\<close> is the identity on the numbers of the configuration). The sum and the
  products associate to the left, as the source's expressions do.
\<close>

definition charge_result ::
  "Engine \<Rightarrow> number \<Rightarrow> string \<Rightarrow> number \<Rightarrow> number \<Rightarrow> DeliverySpeedConfig \<Rightarrow> string \<Rightarrow>
   ShippingChargeResult" where
  "charge_result E distance mode rate weightKg deliveryConfig deliverySpeed =
     (let base = base_charge deliveryConfig;
          transport = num_mul E (num_mul E distance rate) weightKg;
          express = (if deliverySpeed = ''express''
                     then num_mul E (extra_charge_per_kg deliveryConfig) weightKg
                     else Num 0);
          totalCharge = num_add E (num_add E base transport) express
      in \<lparr>shippingCharge = round2 E totalCharge,
          transportMode = mode,
          distance_km = round2 E distance,
          weight_kg = weightKg,
          breakdown = \<lparr>baseCharge = base,
                       transportCharge = round2 E transport,
                       expressCharge = round2 E express\<rparr>\<rparr>)"

definition calculateShippingCharge ::
  "Engine \<Rightarrow> Supabase \<Rightarrow> string \<Rightarrow> string \<Rightarrow> string \<Rightarrow> string option \<Rightarrow> int \<Rightarrow> int \<Rightarrow>
   cached CacheManager \<Rightarrow> (error + ShippingChargeResult) \<times> cached CacheManager" where
  "calculateShippingCharge E supabase warehouse_id customerId deliverySpeed productId now_get now_set c0 =
     (let cacheKey = shippingCharge_key warehouse_id customerId deliverySpeed productId;
          (cached, c) = cache_get cacheKey now_get c0
      in case cached of
           Some (CachedCharge r) \<Rightarrow> (Inr r, c)
         | Some _ \<Rightarrow> (Inl CacheTypeMismatch, c)
         | None \<Rightarrow>
           let warehouseResponse = warehouse_by_id supabase warehouse_id in
           (case data warehouseResponse of
              None \<Rightarrow> (Inl (ResourceNotFoundError ''Warehouse'' warehouse_id), c)
            | Some warehouse \<Rightarrow>
              if error_message warehouseResponse \<noteq> None
              then (Inl (ResourceNotFoundError ''Warehouse'' warehouse_id), c)
              else
              (case validateCoordinates (latitude warehouse) (longitude warehouse) ''warehouse.'' of
                 Inl validationError \<Rightarrow>
                   (Inl (UnsupportedLocationError ''Invalid warehouse coordinates''
                           (latitude warehouse) (longitude warehouse)), c)
               | Inr _ \<Rightarrow>
                 let customerResponse = customer_by_id supabase customerId in
                 (case data customerResponse of
                    None \<Rightarrow> (Inl (ResourceNotFoundError ''Customer'' customerId), c)
                  | Some customer \<Rightarrow>
                    if error_message customerResponse \<noteq> None
                    then (Inl (ResourceNotFoundError ''Customer'' customerId), c)
                    else
                    (case validateCoordinates (latitude customer) (longitude customer) ''customer.'' of
                       Inl validationError \<Rightarrow>
                         (Inl (UnsupportedLocationError ''Invalid customer coordinates''
                                 (latitude customer) (longitude customer)), c)
                     | Inr _ \<Rightarrow>
                       let deliveryResponse = delivery_speed_by_type supabase deliverySpeed in
                       (case data deliveryResponse of
                          None \<Rightarrow>
                            (Inl (Error (''Delivery speed configuration not found: '' @ deliverySpeed)), c)
                        | Some deliveryConfig \<Rightarrow>
                          if error_message deliveryResponse \<noteq> None
                          then (Inl (Error (''Delivery speed configuration not found: '' @ deliverySpeed)), c)
                          else
                          let weightKg = resolve_weight supabase productId in
                          (case calculateDistance E (latitude warehouse) (longitude warehouse)
                                  (latitude customer) (longitude customer) of
                             Inl e \<Rightarrow> (Inl e, c)
                           | Inr distance \<Rightarrow>
                             (case getTransportModeAndRate distance of
                                Inl e \<Rightarrow> (Inl e, c)
                              | Inr (mode, rate) \<Rightarrow>
                                let result = charge_result E distance mode rate weightKg
                                               deliveryConfig deliverySpeed
                                in (Inr result,
                                    cache_set cacheKey (CachedCharge result) (Some 120000) now_set c)))))))))"

definition calculateCompleteShipping ::
  "Engine \<Rightarrow> Supabase \<Rightarrow> string \<Rightarrow> string \<Rightarrow> string \<Rightarrow> string option \<Rightarrow>
   int \<Rightarrow> int \<Rightarrow> int \<Rightarrow> int \<Rightarrow> int \<Rightarrow> int \<Rightarrow>
   cached CacheManager \<Rightarrow> (error + CompleteShippingResult) \<times> cached CacheManager" where
  "calculateCompleteShipping E supabase sellerId customerId deliverySpeed productId
       now_get now_nearest_get now_nearest_set now_charge_get now_charge_set now_set c0 =
     (let cacheKey = calculation_key sellerId customerId deliverySpeed productId;
          (cached, c1) = cache_get cacheKey now_get c0
      in case cached of
           Some (CachedComplete r) \<Rightarrow> (Inr r, c1)
         | Some _ \<Rightarrow> (Inl CacheTypeMismatch, c1)
         | None \<Rightarrow>
           (case findNearestWarehouse E supabase sellerId now_nearest_get now_nearest_set c1 of
              (Inl e, c2) \<Rightarrow> (Inl e, c2)
            | (Inr nearest, c2) \<Rightarrow>
              (case calculateShippingCharge E supabase (warehouseId nearest) customerId
                      deliverySpeed productId now_charge_get now_charge_set c2 of
                 (Inl e, c3) \<Rightarrow> (Inl e, c3)
               | (Inr charge, c3) \<Rightarrow>
                 let result =
                       \<lparr>shippingCharge = shippingCharge charge,
                        transportMode = transportMode charge,
                        distance_km = distance_km charge,
                        weight_kg = weight_kg charge,
                        breakdown = breakdown charge,
                        nearestWarehouse = (warehouseId nearest, warehouseLocation nearest,
                                            warehouseName nearest)\<rparr>
                 in (Inr result,
                     cache_set cacheKey (CachedComplete result) (Some 120000) now_set c3))))"

text \<open>
  The distance from a seller to a warehouse as \<open>calculateDistance\<close> computes it; it is read
  only where that is a finite number.
\<close>

definition distance_from :: "Engine \<Rightarrow> Entity \<Rightarrow> Warehouse \<Rightarrow> real" where
  "distance_from E seller warehouse =
     (case calculateDistance E (latitude seller) (longitude seller)
             (latitude warehouse) (longitude warehouse) of
        Inr d \<Rightarrow> finite_value d
      | Inl _ \<Rightarrow> 0)"

section \<open>Double arithmetic\<close>

text \<open>
  The operators \<open>+ - * /\<close> of an engine that follows IEEE 754, as ECMAScript requires: the
  exact result of the operation on the reals, rounded to the nearest double (binary64), the
  one with an even significand of two equally near.

  \<open>round_half_even q\<close> is the integer nearest to \<open>q\<close>, the even one of two equally near.
\<close>

definition round_half_even :: "real \<Rightarrow> int" where
  "round_half_even q =
     (let n = \<lfloor>q\<rfloor>; r = q - real_of_int n
      in if r < 1 / 2 then n
         else if 1 / 2 < r then n + 1
         else if even n then n else n + 1)"

text \<open>
  The exponent of the binade of \<open>x\<close>, not below that of the subnormal doubles: the doubles
  around \<open>x\<close> are the multiples of \<open>2 ^ (double_exponent x - 52)\<close>.
\<close>

definition double_exponent :: "real \<Rightarrow> int" where
  "double_exponent x = max \<lfloor>log 2 \<bar>x\<bar>\<rfloor> (- 1022)"

text \<open>
  The double nearest to the real \<open>x\<close>; a result of magnitude \<open>2 ^ 1024\<close> is beyond the
  largest double and is the infinity of the sign of \<open>x\<close>.
\<close>

definition round_double :: "real \<Rightarrow> number" where
  "round_double x =
     (if x = 0 then Num 0
      else
        let u = 2 powr real_of_int (double_exponent x - 52);
            y = u * real_of_int (round_half_even (x / u))
        in if 2 powr 1024 \<le> \<bar>y\<bar> then (if 0 < x then Infinity else NegInfinity)
           else Num y)"

text \<open>The operations on the infinities and NaN follow IEEE 754.\<close>

fun num_neg :: "number \<Rightarrow> number" where
  "num_neg (Num a) = Num (- a)"
| "num_neg Infinity = NegInfinity"
| "num_neg NegInfinity = Infinity"
| "num_neg NaN = NaN"

fun num_sign :: "number \<Rightarrow> int" where
  "num_sign (Num a) = (if 0 < a then 1 else if a < 0 then - 1 else 0)"
| "num_sign Infinity = 1"
| "num_sign NegInfinity = - 1"
| "num_sign NaN = 0"

definition signed_infinity :: "int \<Rightarrow> number" where
  "signed_infinity s = (if 0 < s then Infinity else if s < 0 then NegInfinity else NaN)"

fun ieee_add :: "number \<Rightarrow> number \<Rightarrow> number" where
  "ieee_add (Num a) (Num b) = round_double (a + b)"
| "ieee_add NaN _ = NaN"
| "ieee_add _ NaN = NaN"
| "ieee_add Infinity NegInfinity = NaN"
| "ieee_add NegInfinity Infinity = NaN"
| "ieee_add Infinity _ = Infinity"
| "ieee_add NegInfinity _ = NegInfinity"
| "ieee_add _ Infinity = Infinity"
| "ieee_add _ NegInfinity = NegInfinity"

definition ieee_sub :: "number \<Rightarrow> number \<Rightarrow> number" where
  "ieee_sub a b = ieee_add a (num_neg b)"

fun ieee_mul :: "number \<Rightarrow> number \<Rightarrow> number" where
  "ieee_mul (Num a) (Num b) = round_double (a * b)"
| "ieee_mul NaN _ = NaN"
| "ieee_mul _ NaN = NaN"
| "ieee_mul a b = signed_infinity (num_sign a * num_sign b)"

fun ieee_div :: "number \<Rightarrow> number \<Rightarrow> number" where
  "ieee_div (Num a) (Num b) =
     (if b = 0 then signed_infinity (num_sign (Num a)) else round_double (a / b))"
| "ieee_div NaN _ = NaN"
| "ieee_div _ NaN = NaN"
| "ieee_div (Num a) _ = Num 0"
| "ieee_div a (Num b) = signed_infinity (num_sign a * (if b < 0 then - 1 else 1))"
| "ieee_div _ _ = NaN"

text \<open>
  An engine with the four operators of IEEE 754; the functions of \<open>Math\<close> stay those of
  \<open>E\<close>.
\<close>

definition ieee :: "Engine \<Rightarrow> Engine" where
  "ieee E = E\<lparr>num_add := ieee_add, num_sub := ieee_sub, num_mul := ieee_mul, num_div := ieee_div\<rparr>"

section \<open>Example data\<close>

text \<open>
  An engine for the concrete instances below: it computes on reals without rounding and
  answers NaN to any operand that is not finite. It is not the engine the code runs on;
  the instances use it at inputs where no rounding occurs (coordinates 0, whole charges),
  so that a double arithmetic computes the same values there.
\<close>

fun exact1 :: "(real \<Rightarrow> real) \<Rightarrow> number \<Rightarrow> number" where
  "exact1 f (Num a) = Num (f a)"
| "exact1 f _ = NaN"

fun exact2 :: "(real \<Rightarrow> real \<Rightarrow> real) \<Rightarrow> number \<Rightarrow> number \<Rightarrow> number" where
  "exact2 f (Num a) (Num b) = Num (f a b)"
| "exact2 f _ _ = NaN"

definition atan2_real :: "real \<Rightarrow> real \<Rightarrow> real" where
  "atan2_real y x =
     (if 0 < x then arctan (y / x)
      else if x < 0 \<and> 0 \<le> y then arctan (y / x) + pi
      else if x < 0 then arctan (y / x) - pi
      else if 0 < y then pi / 2
      else if y < 0 then - (pi / 2)
      else 0)"

definition exact_engine :: Engine where
  "exact_engine =
     \<lparr>num_add = exact2 (\<lambda>a b. a + b), num_sub = exact2 (\<lambda>a b. a - b),
      num_mul = exact2 (\<lambda>a b. a * b), num_div = exact2 (\<lambda>a b. a / b),
      Math_sin = exact1 sin, Math_cos = exact1 cos, Math_sqrt = exact1 sqrt,
      Math_atan2 = exact2 atan2_real, Math_PI = Num pi\<rparr>"

text \<open>
  A small database: one seller, one customer and two active warehouses, all at latitude 0
  and longitude 0, the standard delivery speed, and one product of 2.5 kg. A query for any
  other id returns no record and an error.
\<close>

definition example_seller :: Entity where
  "example_seller = \<lparr>entity_id = ''s1'', name = ''Seller'', latitude = Num 0, longitude = Num 0\<rparr>"

definition example_customer :: Entity where
  "example_customer = \<lparr>entity_id = ''c1'', name = ''Customer'', latitude = Num 0, longitude = Num 0\<rparr>"

definition example_warehouse :: "string \<Rightarrow> Warehouse" where
  "example_warehouse i =
     \<lparr>entity_id = i, name = ''Warehouse '' @ i, latitude = Num 0, longitude = Num 0, city = None\<rparr>"

definition not_found :: "'a Response" where
  "not_found = \<lparr>data = None, error_message = Some ''no rows''\<rparr>"

definition found :: "'a \<Rightarrow> 'a Response" where
  "found x = \<lparr>data = Some x, error_message = None\<rparr>"

definition example_supabase :: Supabase where
  "example_supabase =
     \<lparr>seller_by_id = (\<lambda>i. if i = ''s1'' then found example_seller else not_found),
      active_warehouses = found [example_warehouse ''w1'', example_warehouse ''w2''],
      warehouse_by_id =
        (\<lambda>i. if i = ''w1'' \<or> i = ''w2''
             then found \<lparr>entity_id = i, name = ''Warehouse '' @ i,
                         latitude = Num 0, longitude = Num 0\<rparr>
             else not_found),
      customer_by_id = (\<lambda>i. if i = ''c1'' then found example_customer else not_found),
      delivery_speed_by_type =
        (\<lambda>t. if t = ''standard''
             then found \<lparr>speed_type = ''standard'', base_charge = Num 10,
                         extra_charge_per_kg = Num 0\<rparr>
             else not_found),
      product_by_id =
        (\<lambda>i. if i = ''p1'' then found \<lparr>product_weight_kg = Num 2.5\<rparr> else not_found)\<rparr>"

text \<open>The same database with a single active warehouse, whose latitude is 91.\<close>

definition invalid_warehouse_supabase :: Supabase where
  "invalid_warehouse_supabase =
     example_supabase\<lparr>active_warehouses :=
       found [\<lparr>entity_id = ''w9'', name = ''Warehouse w9'',
               latitude = Num 91, longitude = Num 0, city = None\<rparr>]\<rparr>"

text \<open>
  Two express configurations as the database stores them: a base charge that is a whole
  number, and an extra charge per kilogram that is the double nearest to 0.01 and to 1.15.
\<close>

definition cent_config :: DeliverySpeedConfig where
  "cent_config =
     \<lparr>speed_type = ''express'', base_charge = Num 1,
      extra_charge_per_kg = round_double (1 / 100)\<rparr>"

definition v3_config :: DeliverySpeedConfig where
  "v3_config =
     \<lparr>speed_type = ''express'', base_charge = Num 10,
      extra_charge_per_kg = round_double (115 / 100)\<rparr>"

section \<open>Properties of the distance calculator and the transport selector\<close>

lemma isValidCoordinate_iff:
  "isValidCoordinate lat lon \<longleftrightarrow> finite_within (- 90) 90 lat \<and> finite_within (- 180) 180 lon"
  by (cases lat; cases lon) (auto simp: isValidCoordinate_def finite_within_def)

lemma getTransportModeAndRate_nonneg:
  "0 \<le> d \<Longrightarrow>
   getTransportModeAndRate (Num d) =
     Inr (if d < 100 then (''Mini Van'', Num 3)
          else if d < 500 then (''Truck'', Num 2)
          else (''Aeroplane'', Num 1))"
  by (auto simp: getTransportModeAndRate_def selectStrategy_def strategies_def)

text \<open>
  C2. For every distance \<open>d \<ge> 0\<close> the selector returns one mode and rate: Mini Van at 3.0 on
  \<open>[0, 100)\<close>, Truck at 2.0 on \<open>[100, 500)\<close>, Aeroplane at 1.0 from 500 on; 100 selects Truck,
  500 selects Aeroplane, and exactly one strategy of the list handles \<open>d\<close>.
\<close>

theorem transport_bands_partition:
  assumes "0 \<le> d"
  shows "getTransportModeAndRate (Num d) =
           Inr (if d < 100 then (''Mini Van'', Num 3)
                else if d < 500 then (''Truck'', Num 2)
                else (''Aeroplane'', Num 1)) \<and>
         getTransportModeAndRate (Num 100) = Inr (''Truck'', Num 2) \<and>
         getTransportModeAndRate (Num 500) = Inr (''Aeroplane'', Num 1) \<and>
         length (filter (\<lambda>s. canHandle s (Num d)) strategies) = 1"
  using assms
  by (auto simp: getTransportModeAndRate_def selectStrategy_def strategies_def)

theorem transport_bands_partition_witness:
  "(0::real) \<le> 99.999 \<and>
   getTransportModeAndRate (Num 99.999) = Inr (''Mini Van'', Num 3) \<and>
   length (filter (\<lambda>s. canHandle s (Num 99.999)) strategies) = 1"
  using transport_bands_partition [of "99.999"] by simp

text \<open>
  C6. For every distance \<open>d < 0\<close> the selector raises its negative-distance error (a plain
  \<open>Error\<close> with the message "Distance cannot be negative") and returns no mode; so does
  the selection at \<open>-1\<close>.
\<close>

theorem negative_distance_rejected:
  assumes "d < 0"
  shows "selectStrategy (Num d) = Inl (Error ''Distance cannot be negative'') \<and>
         getTransportModeAndRate (Num d) = Inl (Error ''Distance cannot be negative'')"
  using assms by (simp add: getTransportModeAndRate_def selectStrategy_def)

theorem negative_distance_rejected_witness:
  "(- 1 :: real) < 0 \<and>
   selectStrategy (Num (- 1)) = Inl (Error ''Distance cannot be negative'') \<and>
   getTransportModeAndRate (Num (- 1)) = Inl (Error ''Distance cannot be negative'')"
  using negative_distance_rejected [of "- 1"] by simp

text \<open>
  C7, as the code has it. Whenever a point of the distance operation has a latitude that is
  not a finite number in \<open>[-90, 90]\<close> or a longitude that is not a finite number in
  \<open>[-180, 180]\<close> (NaN and the infinities included), the operation fails, always with the
  same plain \<open>Error\<close> "Invalid coordinates provided", which names neither the field nor
  the point. The check comes before any arithmetic, so this holds on every engine.
\<close>

theorem invalid_coordinates_rejected:
  assumes "\<not> finite_within (- 90) 90 lat1 \<or> \<not> finite_within (- 180) 180 lon1 \<or>
           \<not> finite_within (- 90) 90 lat2 \<or> \<not> finite_within (- 180) 180 lon2"
  shows "calculateDistance E lat1 lon1 lat2 lon2 = Inl (Error ''Invalid coordinates provided'')"
  using assms by (auto simp: calculateDistance_def isValidCoordinate_iff)

theorem invalid_coordinates_rejected_witness:
  "\<not> finite_within (- 90) 90 NaN \<and>
   calculateDistance exact_engine NaN (Num 0) (Num 0) (Num 0) =
     Inl (Error ''Invalid coordinates provided'')"
proof -
  have h: "\<not> finite_within (- 90) 90 NaN"
    by (simp add: finite_within_def)
  then show ?thesis
    using invalid_coordinates_rejected [of NaN "Num 0" "Num 0" "Num 0" exact_engine] by simp
qed

text \<open>
  C7, as the claim has it, fails: a latitude out of range at the first point and a longitude
  out of range at the second point raise one and the same error value, so the error does
  not identify the field or the point.
\<close>

theorem invalid_coordinate_error_not_identifying:
  "calculateDistance exact_engine (Num 91) (Num 0) (Num 0) (Num 0) =
     Inl (Error ''Invalid coordinates provided'') \<and>
   calculateDistance exact_engine (Num 0) (Num 0) (Num 0) (Num 181) =
     Inl (Error ''Invalid coordinates provided'')"
  by (simp add: calculateDistance_def isValidCoordinate_def)

text \<open>The arithmetic of the example data: the distance from the origin to itself.\<close>

lemma distance_example:
  "calculateDistance exact_engine (Num 0) (Num 0) (Num 0) (Num 0) = Inr (Num 0)"
  by (simp add: calculateDistance_def Let_def toRadians_def exact_engine_def atan2_real_def
      isValidCoordinate_def)

lemma round2_exact_zero: "round2 exact_engine (Num 0) = Num 0"
  by (simp add: round2_def exact_engine_def)

lemma distance_from_eq:
  assumes "calculateDistance E (latitude s) (longitude s) (latitude w) (longitude w) = Inr (Num d)"
  shows "calculateDistance E (latitude s) (longitude s) (latitude w) (longitude w) =
           Inr (Num (distance_from E s w))"
  using assms by (simp add: distance_from_def)

section \<open>Properties of the cache manager\<close>

lemma map_of_cache_set:
  "map_of (cache (cache_set key v ttl now c)) k =
     (if k = key then Some \<lparr>val = v, expiresAt = now + ttl_or_default ttl (defaultTTL c)\<rparr>
      else map_of (cache c) k)"
  by (simp add: cache_set_def Let_def update_conv')

lemma map_of_after_cache_get:
  "map_of (cache (snd (cache_get key now c))) k =
     (if k = key \<and> fst (cache_get key now c) = None then None else map_of (cache c) k)"
  by (auto simp: cache_get_def delete_conv' split: option.splits)

text \<open>
  C8, as the code has it. For every key, value and TTL \<open>t\<close> other than 0: after
  \<open>set(k, v, t)\<close> at time \<open>T\<close>, \<open>get(k)\<close> returns \<open>v\<close> and \<open>has(k)\<close> is true at any time up
  to and including \<open>T + t\<close>; at any time strictly after \<open>T + t\<close>, \<open>get(k)\<close> returns null,
  \<open>has(k)\<close> is false, and either read removes the entry.
\<close>

theorem cache_ttl_nonzero:
  assumes "t \<noteq> 0"
  shows "let c1 = cache_set k v (Some t) T c in
           (now \<le> T + t \<longrightarrow>
              fst (cache_get k now c1) = Some v \<and> fst (cache_has k now c1)) \<and>
           (T + t < now \<longrightarrow>
              fst (cache_get k now c1) = None \<and>
              map_of (cache (snd (cache_get k now c1))) k = None \<and>
              \<not> fst (cache_has k now c1) \<and>
              map_of (cache (snd (cache_has k now c1))) k = None)"
  using assms
  by (auto simp: Let_def cache_get_def cache_has_def map_of_cache_set ttl_or_default_def delete_conv')

theorem cache_ttl_nonzero_witness:
  "fst (cache_get ''k'' 100 (cache_set ''k'' ''v'' (Some 100) 0 new_CacheManager)) = Some ''v'' \<and>
   fst (cache_has ''k'' 100 (cache_set ''k'' ''v'' (Some 100) 0 new_CacheManager)) \<and>
   fst (cache_get ''k'' 101 (cache_set ''k'' ''v'' (Some 100) 0 new_CacheManager)) = None \<and>
   map_of (cache (snd (cache_get ''k'' 101 (cache_set ''k'' ''v'' (Some 100) 0 new_CacheManager)))) ''k'' = None \<and>
   \<not> fst (cache_has ''k'' 101 (cache_set ''k'' ''v'' (Some 100) 0 new_CacheManager))"
  using cache_ttl_nonzero [of 100 "''k''" "''v''" 0 new_CacheManager 100]
        cache_ttl_nonzero [of 100 "''k''" "''v''" 0 new_CacheManager 101]
  by (simp add: Let_def)

text \<open>
  C8, as the claim has it, fails at a TTL of 0: \<open>ttl || this.defaultTTL\<close> takes the default
  of 300000 ms, so a value set at time 0 with TTL 0 is still returned at time 1.
\<close>

theorem cache_ttl_zero_counterexample:
  "fst (cache_get ''k'' 1 (cache_set ''k'' ''v'' (Some 0) 0 new_CacheManager)) = Some ''v''"
  by (simp add: cache_get_def cache_set_def new_CacheManager_def ttl_or_default_def)

text \<open>
  C10. \<open>clear()\<close> removes every entry and resets both counters, so \<open>getStats()\<close> right after
  it reports hits 0, misses 0, size 0 and hit rate 0; \<open>resetStats()\<close> resets the counters too.
\<close>

theorem clear_resets_statistics:
  "getStats (clear c) = \<lparr>stats_hits = 0, stats_misses = 0, stats_size = 0, hitRate = 0\<rparr> \<and>
   cache (clear c) = [] \<and> hits (clear c) = 0 \<and> misses (clear c) = 0 \<and>
   hits (resetStats c) = 0 \<and> misses (resetStats c) = 0"
  by (simp add: getStats_def clear_def resetStats_def)

section \<open>Properties of the shipping service\<close>

lemma validateCoordinates_valid:
  "isValidCoordinate lat lon \<Longrightarrow> validateCoordinates lat lon p = Inr True"
  by (cases lat; cases lon) (auto simp: validateCoordinates_def isValidCoordinate_def)

lemma validateCoordinates_origin:
  "validateCoordinates (Num 0) (Num 0) p = Inr True"
  by (rule validateCoordinates_valid) (simp add: isValidCoordinate_def)

lemma cache_get_new: "cache_get k now new_CacheManager = (None, new_CacheManager\<lparr>misses := 1\<rparr>)"
  by (simp add: cache_get_def new_CacheManager_def)

lemma Min_image_Cons:
  fixes f :: "'a \<Rightarrow> real"
  shows "Min (f ` set (w # rest)) = (if rest = [] then f w else min (f w) (Min (f ` set rest)))"
  by (cases "rest = []") (simp_all add: Min_insert)

lemma nearest_loop_acc:
  assumes "\<forall>w\<in>set ws. calculateDistance E (latitude s) (longitude s) (latitude w) (longitude w) =
                        Inr (Num (f w))"
  shows "nearest_loop E s ws (Some a, Num m) =
           Inr (if ws = [] \<or> m \<le> Min (f ` set ws) then (Some a, Num m)
                else (find (\<lambda>x. f x = Min (f ` set ws)) ws, Num (Min (f ` set ws))))"
  using assms
proof (induction ws arbitrary: a m)
  case Nil
  then show ?case by simp
next
  case (Cons w rest)
  have d: "calculateDistance E (latitude s) (longitude s) (latitude w) (longitude w) = Inr (Num (f w))"
    using Cons.prems by simp
  have rest: "\<forall>x\<in>set rest. calculateDistance E (latitude s) (longitude s) (latitude x) (longitude x) =
                            Inr (Num (f x))"
    using Cons.prems by simp
  show ?case
  proof (cases "f w < m")
    case True
    have "nearest_loop E s (w # rest) (Some a, Num m) = nearest_loop E s rest (Some w, Num (f w))"
      using d True by simp
    also have "\<dots> = Inr (if rest = [] \<or> f w \<le> Min (f ` set rest) then (Some w, Num (f w))
                else (find (\<lambda>x. f x = Min (f ` set rest)) rest, Num (Min (f ` set rest))))"
      by (rule Cons.IH [OF rest])
    also have "\<dots> = Inr (if w # rest = [] \<or> m \<le> Min (f ` set (w # rest)) then (Some a, Num m)
                else (find (\<lambda>x. f x = Min (f ` set (w # rest))) (w # rest), Num (Min (f ` set (w # rest)))))"
      using True unfolding Min_image_Cons by (auto simp: min_def) (meson less_trans not_le)
    finally show ?thesis .
  next
    case False
    have "nearest_loop E s (w # rest) (Some a, Num m) = nearest_loop E s rest (Some a, Num m)"
      using d False by simp
    also have "\<dots> = Inr (if rest = [] \<or> m \<le> Min (f ` set rest) then (Some a, Num m)
                else (find (\<lambda>x. f x = Min (f ` set rest)) rest, Num (Min (f ` set rest))))"
      by (rule Cons.IH [OF rest])
    also have "\<dots> = Inr (if w # rest = [] \<or> m \<le> Min (f ` set (w # rest)) then (Some a, Num m)
                else (find (\<lambda>x. f x = Min (f ` set (w # rest))) (w # rest), Num (Min (f ` set (w # rest)))))"
      using False unfolding Min_image_Cons by (auto simp: min_def)
    finally show ?thesis .
  qed
qed

lemma nearest_loop_start:
  assumes "\<forall>w\<in>set ws. calculateDistance E (latitude s) (longitude s) (latitude w) (longitude w) =
                        Inr (Num (f w))"
    and "ws \<noteq> []"
  shows "nearest_loop E s ws (None, Infinity) =
           Inr (find (\<lambda>x. f x = Min (f ` set ws)) ws, Num (Min (f ` set ws)))"
proof -
  from assms(2) obtain w rest where ws: "ws = w # rest" by (cases ws) auto
  have d: "calculateDistance E (latitude s) (longitude s) (latitude w) (longitude w) = Inr (Num (f w))"
    using assms(1) ws by simp
  have rest: "\<forall>x\<in>set rest. calculateDistance E (latitude s) (longitude s) (latitude x) (longitude x) =
                            Inr (Num (f x))"
    using assms(1) ws by simp
  have "nearest_loop E s ws (None, Infinity) = nearest_loop E s rest (Some w, Num (f w))"
    using d ws by simp
  also have "\<dots> = Inr (if rest = [] \<or> f w \<le> Min (f ` set rest) then (Some w, Num (f w))
                else (find (\<lambda>x. f x = Min (f ` set rest)) rest, Num (Min (f ` set rest))))"
    by (rule nearest_loop_acc [OF rest])
  also have "\<dots> = Inr (find (\<lambda>x. f x = Min (f ` set ws)) ws, Num (Min (f ` set ws)))"
    unfolding ws Min_image_Cons by (auto simp: min_def)
  finally show ?thesis .
qed

lemma find_Min_Some:
  fixes f :: "'a \<Rightarrow> real"
  assumes "ws \<noteq> []"
  shows "\<exists>w. find (\<lambda>x. f x = Min (f ` set ws)) ws = Some w"
proof -
  have "Min (f ` set ws) \<in> f ` set ws"
    using assms by (intro Min_in) simp_all
  then obtain w where "w \<in> set ws" "f w = Min (f ` set ws)" by auto
  then have "find (\<lambda>x. f x = Min (f ` set ws)) ws \<noteq> None"
    by (auto simp: find_None_iff)
  then show ?thesis by auto
qed

text \<open>
  A distance that is NaN is never less than \<open>minDistance\<close>: a list of warehouses whose
  distances are all NaN leaves the loop with no warehouse, and the operation raises
  "Could not determine nearest warehouse".
\<close>

lemma nearest_loop_NaN:
  assumes "\<forall>w\<in>set ws. calculateDistance E (latitude s) (longitude s) (latitude w) (longitude w) =
                        Inr NaN"
  shows "nearest_loop E s ws (nearest, minDistance) = Inr (nearest, minDistance)"
  using assms by (induction ws) simp_all

text \<open>
  C3, as the code has it. On a cache miss, for every seller with valid coordinates and every
  non-empty list of active warehouses for each of which \<open>calculateDistance\<close> returns a finite
  number (so each has valid coordinates, and the computed distance is not NaN),
  \<open>findNearestWarehouse\<close> returns the warehouse at index \<open>i\<close> of the list whose computed
  distance to the seller is minimal over the list and strictly smaller than that of every
  warehouse before it (ties go to the first encountered), with that distance rounded to 2
  decimals by \<open>round2\<close>. This holds on every engine.
\<close>

theorem nearest_warehouse_selected:
  assumes "fst (cache_get (nearestWarehouse_key sellerId) now_get c0) = None"
    and "seller_by_id supabase sellerId = \<lparr>data = Some seller, error_message = None\<rparr>"
    and "isValidCoordinate (latitude seller) (longitude seller)"
    and "active_warehouses supabase = \<lparr>data = Some warehouses, error_message = None\<rparr>"
    and "warehouses \<noteq> []"
    and "\<forall>w\<in>set warehouses.
           \<exists>d. calculateDistance E (latitude seller) (longitude seller)
                  (latitude w) (longitude w) = Inr (Num d)"
  shows "\<exists>i < length warehouses.
           (\<forall>j < length warehouses.
              distance_from E seller (warehouses ! i) \<le> distance_from E seller (warehouses ! j)) \<and>
           (\<forall>j < i. distance_from E seller (warehouses ! i) < distance_from E seller (warehouses ! j)) \<and>
           calculateDistance E (latitude seller) (longitude seller)
             (latitude (warehouses ! i)) (longitude (warehouses ! i)) =
             Inr (Num (distance_from E seller (warehouses ! i))) \<and>
           fst (findNearestWarehouse E supabase sellerId now_get now_set c0) =
             Inr \<lparr>warehouseId = entity_id (warehouses ! i),
                  warehouseLocation = (latitude (warehouses ! i), longitude (warehouses ! i)),
                  warehouseName = name (warehouses ! i),
                  nearest_distance_km =
                    round2 E (Num (distance_from E seller (warehouses ! i)))\<rparr>"
proof -
  let ?f = "distance_from E seller"
  let ?M = "Min (?f ` set warehouses)"
  have dist: "\<forall>w\<in>set warehouses.
      calculateDistance E (latitude seller) (longitude seller) (latitude w) (longitude w) =
        Inr (Num (?f w))"
    using assms(6) distance_from_eq by blast
  obtain w where w: "find (\<lambda>x. ?f x = ?M) warehouses = Some w"
    using find_Min_Some [OF assms(5)] by blast
  then obtain i where i: "i < length warehouses" "?f (warehouses ! i) = ?M" "w = warehouses ! i"
    "\<forall>j<i. ?f (warehouses ! j) \<noteq> ?M"
    by (auto simp: find_Some_iff)
  have le: "\<forall>j < length warehouses. ?M \<le> ?f (warehouses ! j)"
    by (simp add: Min_le)
  have min: "\<forall>j < length warehouses. ?f (warehouses ! i) \<le> ?f (warehouses ! j)"
    using le i(2) by simp
  have first: "\<forall>j < i. ?f (warehouses ! i) < ?f (warehouses ! j)"
  proof (intro allI impI)
    fix j assume "j < i"
    then have "?f (warehouses ! j) \<noteq> ?M" "?M \<le> ?f (warehouses ! j)"
      using i(1,4) le by auto
    then show "?f (warehouses ! i) < ?f (warehouses ! j)"
      using i(2) by linarith
  qed
  have di: "calculateDistance E (latitude seller) (longitude seller)
             (latitude (warehouses ! i)) (longitude (warehouses ! i)) =
             Inr (Num (?f (warehouses ! i)))"
    using dist i(1) by simp
  have loop: "nearest_loop E seller warehouses (None, Infinity) = Inr (Some w, Num ?M)"
    using nearest_loop_start [OF dist assms(5)] w by simp
  obtain c where c: "cache_get (nearestWarehouse_key sellerId) now_get c0 = (None, c)"
    using assms(1) by (cases "cache_get (nearestWarehouse_key sellerId) now_get c0") auto
  have "fst (findNearestWarehouse E supabase sellerId now_get now_set c0) =
             Inr \<lparr>warehouseId = entity_id w,
                  warehouseLocation = (latitude w, longitude w),
                  warehouseName = name w,
                  nearest_distance_km = round2 E (Num ?M)\<rparr>"
    using assms(2,4,5) loop
    by (simp add: findNearestWarehouse_def Let_def c validateCoordinates_valid [OF assms(3)])
  then show ?thesis
    using i(1) min first di unfolding i(3) i(2) [symmetric] by blast
qed

theorem nearest_warehouse_selected_witness:
  "fst (findNearestWarehouse exact_engine example_supabase ''s1'' 0 0 new_CacheManager) =
     Inr \<lparr>warehouseId = ''w1'', warehouseLocation = (Num 0, Num 0),
          warehouseName = ''Warehouse w1'', nearest_distance_km = Num 0\<rparr>"
proof -
  let ?ws = "[example_warehouse ''w1'', example_warehouse ''w2'']"
  have h1: "fst (cache_get (nearestWarehouse_key ''s1'') 0 (new_CacheManager :: cached CacheManager)) = None"
    by (simp add: cache_get_new)
  have h2: "seller_by_id example_supabase ''s1'' = \<lparr>data = Some example_seller, error_message = None\<rparr>"
    by (simp add: example_supabase_def found_def)
  have h3: "isValidCoordinate (latitude example_seller) (longitude example_seller)"
    by (simp add: example_seller_def isValidCoordinate_def)
  have h4: "active_warehouses example_supabase = \<lparr>data = Some ?ws, error_message = None\<rparr>"
    by (simp add: example_supabase_def found_def)
  have h5: "?ws \<noteq> []" by simp
  have h6: "\<forall>w\<in>set ?ws. \<exists>d. calculateDistance exact_engine (latitude example_seller)
               (longitude example_seller) (latitude w) (longitude w) = Inr (Num d)"
    by (simp add: example_warehouse_def example_seller_def distance_example)
  have d: "distance_from exact_engine example_seller (example_warehouse i) = 0" for i
    by (simp add: distance_from_def example_seller_def example_warehouse_def distance_example)
  obtain i where i: "i < length ?ws"
    "\<forall>j < i. distance_from exact_engine example_seller (?ws ! i)
              < distance_from exact_engine example_seller (?ws ! j)"
    "fst (findNearestWarehouse exact_engine example_supabase ''s1'' 0 0 new_CacheManager) =
             Inr \<lparr>warehouseId = entity_id (?ws ! i),
                  warehouseLocation = (latitude (?ws ! i), longitude (?ws ! i)),
                  warehouseName = name (?ws ! i),
                  nearest_distance_km =
                    round2 exact_engine (Num (distance_from exact_engine example_seller (?ws ! i)))\<rparr>"
    using nearest_warehouse_selected [OF h1 h2 h3 h4 h5 h6, of 0] by blast
  have "i = 0"
  proof (rule ccontr)
    assume "i \<noteq> 0"
    then have "i = 1" using i(1) by simp
    then show False using i(2) d by auto
  qed
  then have "fst (findNearestWarehouse exact_engine example_supabase ''s1'' 0 0 new_CacheManager) =
             Inr \<lparr>warehouseId = entity_id (example_warehouse ''w1''),
                  warehouseLocation = (latitude (example_warehouse ''w1''),
                                       longitude (example_warehouse ''w1'')),
                  warehouseName = name (example_warehouse ''w1''),
                  nearest_distance_km = round2 exact_engine (Num 0)\<rparr>"
    using i(3) by (simp add: d)
  then show ?thesis
    by (simp add: example_warehouse_def round2_exact_zero)
qed

text \<open>
  The coordinates of the warehouses are not validated, and \<open>calculateDistance\<close> raises
  inside the loop at the first invalid one, before any arithmetic: on every engine.
\<close>

lemma invalid_warehouse_fails:
  "fst (findNearestWarehouse E invalid_warehouse_supabase ''s1'' 0 0 new_CacheManager) =
     Inl (Error ''Invalid coordinates provided'')"
  by (simp add: findNearestWarehouse_def Let_def cache_get_new invalid_warehouse_supabase_def
      example_supabase_def found_def example_seller_def validateCoordinates_def
      calculateDistance_def isValidCoordinate_def)

text \<open>
  C3, as the claim has it, fails when a warehouse of the list has invalid coordinates: the
  seller at (0, 0) is valid, the list is not empty, and the operation fails instead of
  returning a warehouse.
\<close>

theorem invalid_warehouse_counterexample:
  "fst (findNearestWarehouse exact_engine invalid_warehouse_supabase ''s1'' 0 0 new_CacheManager) =
     Inl (Error ''Invalid coordinates provided'')"
  by (simp add: findNearestWarehouse_def Let_def cache_get_new invalid_warehouse_supabase_def
      example_supabase_def found_def example_seller_def validateCoordinates_def
      calculateDistance_def isValidCoordinate_def)






lemma nearest_key_neq_calculation_key:
  "nearestWarehouse_key s \<noteq> calculation_key s' c d p"
  by (simp add: nearestWarehouse_key_def calculation_key_def Let_def split: option.splits)

lemma shippingCharge_key_neq_calculation_key:
  "shippingCharge_key w c d p \<noteq> calculation_key s' c' d' p'"
  by (simp add: shippingCharge_key_def calculation_key_def Let_def split: option.splits)

lemma findNearestWarehouse_shape:
  "case findNearestWarehouse E supabase sellerId now_get now_set c0 of
     (Inl e, c') \<Rightarrow>
       c' = snd (cache_get (nearestWarehouse_key sellerId) now_get c0) \<and>
       (e \<noteq> CacheTypeMismatch \<longrightarrow>
          fst (cache_get (nearestWarehouse_key sellerId) now_get c0) = None)
   | (Inr r, c') \<Rightarrow>
       c' = snd (cache_get (nearestWarehouse_key sellerId) now_get c0) \<or>
       c' = cache_set (nearestWarehouse_key sellerId) (CachedNearest r) (Some 300000) now_set
              (snd (cache_get (nearestWarehouse_key sellerId) now_get c0))"
  by (simp add: findNearestWarehouse_def Let_def case_prod_beta
      split: option.split cached.split sum.split prod.split)

lemma calculateShippingCharge_shape:
  "case calculateShippingCharge E supabase wid cid speed productId now_get now_set c0 of
     (Inl e, c') \<Rightarrow>
       c' = snd (cache_get (shippingCharge_key wid cid speed productId) now_get c0) \<and>
       (e \<noteq> CacheTypeMismatch \<longrightarrow>
          fst (cache_get (shippingCharge_key wid cid speed productId) now_get c0) = None)
   | (Inr r, c') \<Rightarrow>
       c' = snd (cache_get (shippingCharge_key wid cid speed productId) now_get c0) \<or>
       c' = cache_set (shippingCharge_key wid cid speed productId) (CachedCharge r) (Some 120000)
              now_set (snd (cache_get (shippingCharge_key wid cid speed productId) now_get c0))"
  by (simp add: calculateShippingCharge_def Let_def case_prod_beta
      split: option.split cached.split sum.split prod.split)

lemma findNearestWarehouse_other_keys:
  assumes "k \<noteq> nearestWarehouse_key sellerId"
  shows "map_of (cache (snd (findNearestWarehouse E supabase sellerId now_get now_set c0))) k =
         map_of (cache c0) k"
  using findNearestWarehouse_shape
          [where E = E and supabase = supabase and sellerId = sellerId and now_get = now_get
             and now_set = now_set and ?c0.0 = c0] assms
  by (auto simp: map_of_cache_set map_of_after_cache_get split: prod.splits sum.splits)

lemma calculateShippingCharge_other_keys:
  assumes "k \<noteq> shippingCharge_key wid cid speed productId"
  shows "map_of (cache (snd (calculateShippingCharge E supabase wid cid speed productId
                                now_get now_set c0))) k =
         map_of (cache c0) k"
  using calculateShippingCharge_shape
          [where E = E and supabase = supabase and wid = wid and cid = cid and speed = speed
             and productId = productId and now_get = now_get and now_set = now_set
             and ?c0.0 = c0] assms
  by (auto simp: map_of_cache_set map_of_after_cache_get split: prod.splits sum.splits)

text \<open>
  C9. When \<open>findNearestWarehouse\<close> or \<open>calculateShippingCharge\<close> raises, the cache is the
  one its initial lookup left: nothing was written. When \<open>calculateCompleteShipping\<close>
  raises, the entry under its own key is the one its initial lookup left (the operations it
  calls write under other keys only). In all three cases no entry stands under the
  operation's own key afterwards (the type-mismatch outcome of the model apart, which
  leaves the entry it found). This holds on every engine.
\<close>

theorem no_cache_write_on_error:
  "(findNearestWarehouse E supabase sellerId t1 t2 c0 = (Inl e1, c1') \<longrightarrow>
      c1' = snd (cache_get (nearestWarehouse_key sellerId) t1 c0) \<and>
      (e1 \<noteq> CacheTypeMismatch \<longrightarrow> map_of (cache c1') (nearestWarehouse_key sellerId) = None)) \<and>
   (calculateShippingCharge E supabase wid cid speed productId t1 t2 c0 = (Inl e2, c2') \<longrightarrow>
      c2' = snd (cache_get (shippingCharge_key wid cid speed productId) t1 c0) \<and>
      (e2 \<noteq> CacheTypeMismatch \<longrightarrow>
         map_of (cache c2') (shippingCharge_key wid cid speed productId) = None)) \<and>
   (calculateCompleteShipping E supabase sellerId cid speed productId t1 t2 t3 t4 t5 t6 c0 = (Inl e3, c3') \<longrightarrow>
      map_of (cache c3') (calculation_key sellerId cid speed productId) =
        map_of (cache (snd (cache_get (calculation_key sellerId cid speed productId) t1 c0)))
          (calculation_key sellerId cid speed productId) \<and>
      (e3 \<noteq> CacheTypeMismatch \<longrightarrow>
         map_of (cache c3') (calculation_key sellerId cid speed productId) = None))"
proof (intro conjI impI)
  assume a: "findNearestWarehouse E supabase sellerId t1 t2 c0 = (Inl e1, c1')"
  show c: "c1' = snd (cache_get (nearestWarehouse_key sellerId) t1 c0)"
    using findNearestWarehouse_shape
            [where E = E and supabase = supabase and sellerId = sellerId and now_get = t1
               and now_set = t2 and ?c0.0 = c0]
    by (simp add: a)
  assume "e1 \<noteq> CacheTypeMismatch"
  then have "fst (cache_get (nearestWarehouse_key sellerId) t1 c0) = None"
    using findNearestWarehouse_shape
            [where E = E and supabase = supabase and sellerId = sellerId and now_get = t1
               and now_set = t2 and ?c0.0 = c0]
    by (simp add: a)
  then show "map_of (cache c1') (nearestWarehouse_key sellerId) = None"
    unfolding c by (simp add: map_of_after_cache_get)
next
  assume a: "calculateShippingCharge E supabase wid cid speed productId t1 t2 c0 = (Inl e2, c2')"
  show c: "c2' = snd (cache_get (shippingCharge_key wid cid speed productId) t1 c0)"
    using calculateShippingCharge_shape
          [where E = E and supabase = supabase and wid = wid and cid = cid and speed = speed
             and productId = productId and now_get = t1 and now_set = t2 and ?c0.0 = c0]
    by (simp add: a)
  assume "e2 \<noteq> CacheTypeMismatch"
  then have "fst (cache_get (shippingCharge_key wid cid speed productId) t1 c0) = None"
    using calculateShippingCharge_shape
          [where E = E and supabase = supabase and wid = wid and cid = cid and speed = speed
             and productId = productId and now_get = t1 and now_set = t2 and ?c0.0 = c0]
    by (simp add: a)
  then show "map_of (cache c2') (shippingCharge_key wid cid speed productId) = None"
    unfolding c by (simp add: map_of_after_cache_get)
next
  let ?k = "calculation_key sellerId cid speed productId"
  let ?c1 = "snd (cache_get ?k t1 c0)"
  let ?n = "findNearestWarehouse E supabase sellerId t2 t3 ?c1"
  assume a: "calculateCompleteShipping E supabase sellerId cid speed productId t1 t2 t3 t4 t5 t6 c0 = (Inl e3, c3')"
  have n_keeps: "map_of (cache (snd ?n)) ?k = map_of (cache ?c1) ?k"
    by (rule findNearestWarehouse_other_keys) (simp add: nearest_key_neq_calculation_key [symmetric])
  have s_keeps: "map_of (cache (snd (calculateShippingCharge E supabase w cid speed productId t4 t5 (snd ?n)))) ?k =
                 map_of (cache (snd ?n)) ?k" for w
    by (rule calculateShippingCharge_other_keys) (simp add: shippingCharge_key_neq_calculation_key [symmetric])
  have cases: "c3' = ?c1 \<and> e3 = CacheTypeMismatch \<or>
               fst (cache_get ?k t1 c0) = None \<and>
               (c3' = snd ?n \<or>
                (\<exists>w. c3' = snd (calculateShippingCharge E supabase w cid speed productId t4 t5 (snd ?n))))"
    using a
    by (auto simp: calculateCompleteShipping_def Let_def case_prod_beta
        split: option.splits cached.splits sum.splits prod.splits)
  show keep: "map_of (cache c3') ?k = map_of (cache ?c1) ?k"
    using cases n_keeps s_keeps by auto
  assume "e3 \<noteq> CacheTypeMismatch"
  then have "fst (cache_get ?k t1 c0) = None"
    using cases by auto
  then show "map_of (cache c3') ?k = None"
    unfolding keep by (simp add: map_of_after_cache_get)
qed

theorem no_cache_write_on_error_witness:
  "fst (findNearestWarehouse exact_engine example_supabase ''nobody'' 0 0 new_CacheManager) =
     Inl (ResourceNotFoundError ''Seller'' ''nobody'') \<and>
   map_of (cache (snd (findNearestWarehouse exact_engine example_supabase ''nobody'' 0 0
                         new_CacheManager)))
     (nearestWarehouse_key ''nobody'') = None \<and>
   fst (calculateShippingCharge exact_engine example_supabase ''w1'' ''nobody'' ''standard'' None 0 0
          new_CacheManager) =
     Inl (ResourceNotFoundError ''Customer'' ''nobody'') \<and>
   map_of (cache (snd (calculateShippingCharge exact_engine example_supabase ''w1'' ''nobody''
                         ''standard'' None 0 0 new_CacheManager)))
     (shippingCharge_key ''w1'' ''nobody'' ''standard'' None) = None \<and>
   fst (calculateCompleteShipping exact_engine example_supabase ''s1'' ''nobody'' ''standard'' None
          0 0 0 0 0 0 new_CacheManager) =
     Inl (ResourceNotFoundError ''Customer'' ''nobody'') \<and>
   map_of (cache (snd (calculateCompleteShipping exact_engine example_supabase ''s1'' ''nobody''
                         ''standard'' None 0 0 0 0 0 0 new_CacheManager)))
     (calculation_key ''s1'' ''nobody'' ''standard'' None) = None"
proof -
  let ?n = "findNearestWarehouse exact_engine example_supabase ''nobody'' 0 0
              (new_CacheManager :: cached CacheManager)"
  let ?s = "calculateShippingCharge exact_engine example_supabase ''w1'' ''nobody'' ''standard''
              None 0 0 (new_CacheManager :: cached CacheManager)"
  let ?c = "calculateCompleteShipping exact_engine example_supabase ''s1'' ''nobody'' ''standard''
              None 0 0 0 0 0 0 (new_CacheManager :: cached CacheManager)"
  have n: "fst ?n = Inl (ResourceNotFoundError ''Seller'' ''nobody'')"
    by (simp add: findNearestWarehouse_def Let_def cache_get_new example_supabase_def not_found_def)
  have s: "fst ?s = Inl (ResourceNotFoundError ''Customer'' ''nobody'')"
    by (simp add: calculateShippingCharge_def Let_def cache_get_new example_supabase_def
        not_found_def found_def validateCoordinates_def)
  have near: "findNearestWarehouse exact_engine example_supabase ''s1'' 0 0 c =
      (Inr \<lparr>warehouseId = ''w1'', warehouseLocation = (Num 0, Num 0),
            warehouseName = ''Warehouse w1'', nearest_distance_km = Num 0\<rparr>,
       cache_set (nearestWarehouse_key ''s1'')
         (CachedNearest \<lparr>warehouseId = ''w1'', warehouseLocation = (Num 0, Num 0),
            warehouseName = ''Warehouse w1'', nearest_distance_km = Num 0\<rparr>)
         (Some 300000) 0 (c\<lparr>misses := misses c + 1\<rparr>))"
    if "cache c = []" for c :: "cached CacheManager"
    using that
    by (simp add: findNearestWarehouse_def Let_def cache_get_def
        example_supabase_def found_def validateCoordinates_origin example_warehouse_def
        example_seller_def distance_example round2_exact_zero)
  have empty: "cache (new_CacheManager\<lparr>misses := 1\<rparr> :: cached CacheManager) = []"
    by (simp add: new_CacheManager_def)
  let ?r = "\<lparr>warehouseId = ''w1'', warehouseLocation = (Num 0, Num 0),
            warehouseName = ''Warehouse w1'', nearest_distance_km = Num 0\<rparr>"
  let ?c1 = "new_CacheManager\<lparr>misses := 1\<rparr> :: cached CacheManager"
  let ?c2 = "cache_set (nearestWarehouse_key ''s1'') (CachedNearest ?r) (Some 300000) 0
               (?c1\<lparr>misses := misses ?c1 + 1\<rparr>)"
  have miss2: "fst (cache_get (shippingCharge_key ''w1'' ''nobody'' ''standard'' None) 0 ?c2) = None"
    by (simp add: cache_get_def cache_set_def new_CacheManager_def
        nearestWarehouse_key_def shippingCharge_key_def)
  have "fst (calculateShippingCharge exact_engine example_supabase ''w1'' ''nobody'' ''standard''
               None 0 0 ?c2) =
          Inl (ResourceNotFoundError ''Customer'' ''nobody'')"
    using miss2
    by (simp add: calculateShippingCharge_def Let_def case_prod_beta example_supabase_def
        not_found_def found_def validateCoordinates_origin)
  then obtain c3 where charge:
    "calculateShippingCharge exact_engine example_supabase ''w1'' ''nobody'' ''standard'' None 0 0 ?c2 =
       (Inl (ResourceNotFoundError ''Customer'' ''nobody''), c3)"
    by (cases "calculateShippingCharge exact_engine example_supabase ''w1'' ''nobody'' ''standard''
                 None 0 0 ?c2") auto
  have c: "fst ?c = Inl (ResourceNotFoundError ''Customer'' ''nobody'')"
    by (simp only: calculateCompleteShipping_def Let_def cache_get_new prod.case option.case
        near [OF empty] sum.case charge NearestWarehouseResult.simps fst_conv)
  obtain cn where cn: "?n = (Inl (ResourceNotFoundError ''Seller'' ''nobody''), cn)"
    using n by (cases ?n) auto
  obtain cs where cs: "?s = (Inl (ResourceNotFoundError ''Customer'' ''nobody''), cs)"
    using s by (cases ?s) auto
  obtain cc where cc: "?c = (Inl (ResourceNotFoundError ''Customer'' ''nobody''), cc)"
    using c by (cases ?c) auto
  have wn: "map_of (cache cn) (nearestWarehouse_key ''nobody'') = None"
    using no_cache_write_on_error
            [where E = exact_engine and supabase = example_supabase and sellerId = "''nobody''"
               and ?t1.0 = 0 and ?t2.0 = 0 and ?c0.0 = new_CacheManager
               and ?e1.0 = "ResourceNotFoundError ''Seller'' ''nobody''" and c1' = cn,
             THEN conjunct1] cn
    by blast
  have ws: "map_of (cache cs) (shippingCharge_key ''w1'' ''nobody'' ''standard'' None) = None"
    using no_cache_write_on_error
            [where E = exact_engine and supabase = example_supabase and wid = "''w1''"
               and cid = "''nobody''"
               and speed = "''standard''" and productId = None and ?t1.0 = 0 and ?t2.0 = 0
               and ?c0.0 = new_CacheManager
               and ?e2.0 = "ResourceNotFoundError ''Customer'' ''nobody''" and c2' = cs,
             THEN conjunct2, THEN conjunct1] cs
    by blast
  have wc: "map_of (cache cc) (calculation_key ''s1'' ''nobody'' ''standard'' None) = None"
    using no_cache_write_on_error
            [where E = exact_engine and supabase = example_supabase and sellerId = "''s1''"
               and cid = "''nobody''"
               and speed = "''standard''" and productId = None and ?t1.0 = 0 and ?t2.0 = 0
               and ?t3.0 = 0 and ?t4.0 = 0 and ?t5.0 = 0 and ?t6.0 = 0
               and ?c0.0 = new_CacheManager
               and ?e3.0 = "ResourceNotFoundError ''Customer'' ''nobody''" and c3' = cc,
             THEN conjunct2, THEN conjunct2] cc
    by blast
  show ?thesis
    using wn ws wc by (simp add: cn cs cc)
qed

section \<open>Properties of double arithmetic\<close>

lemma round_half_even_close: "\<bar>real_of_int (round_half_even q) - q\<bar> \<le> 1 / 2"
  unfolding round_half_even_def Let_def by (auto simp: abs_le_iff)

lemma round_half_even_of_int: "round_half_even (real_of_int m) = m"
  by (simp add: round_half_even_def)

lemma double_exponent_le:
  assumes "x \<noteq> 0" and "\<bar>x\<bar> \<le> 2 ^ k"
  shows "double_exponent x \<le> int k"
proof -
  have "log 2 \<bar>x\<bar> \<le> real k"
    using assms by (simp add: log_le_iff powr_realpow)
  then have "\<lfloor>log 2 \<bar>x\<bar>\<rfloor> \<le> int k"
    by (simp add: floor_le_iff)
  then show ?thesis
    by (simp add: double_exponent_def)
qed

lemma round_double_close:
  assumes "\<bar>x\<bar> \<le> 2 ^ k" and "k \<le> 1000"
  shows "\<exists>y. round_double x = Num y \<and> \<bar>y - x\<bar> \<le> 2 ^ k / 2 ^ 53"
proof (cases "x = 0")
  case True
  then show ?thesis by (simp add: round_double_def)
next
  case False
  define u where "u = 2 powr real_of_int (double_exponent x - 52)"
  define y where "y = u * real_of_int (round_half_even (x / u))"
  have u_pos: "0 < u" by (simp add: u_def)
  have "real_of_int (double_exponent x - 52) \<le> real k - 52"
    using double_exponent_le [OF False assms(1)] by simp
  then have "u \<le> 2 powr (real k - 52)"
    unfolding u_def by (intro powr_mono) simp_all
  also have "\<dots> = 2 ^ k / 2 ^ 52"
    by (simp add: powr_diff powr_realpow)
  finally have u_le: "u \<le> 2 ^ k / 2 ^ 52" .
  have "y - x = u * (real_of_int (round_half_even (x / u)) - x / u)"
    using u_pos by (simp add: y_def algebra_simps)
  then have "\<bar>y - x\<bar> = u * \<bar>real_of_int (round_half_even (x / u)) - x / u\<bar>"
    using u_pos by (simp add: abs_mult)
  also have "\<dots> \<le> u * (1 / 2)"
    using u_pos round_half_even_close [of "x / u"] by (intro mult_left_mono) simp_all
  also have "\<dots> \<le> 2 ^ k / 2 ^ 53"
    using u_le by simp
  finally have close: "\<bar>y - x\<bar> \<le> 2 ^ k / 2 ^ 53" .
  have k_le: "(2::real) ^ k \<le> 2 ^ 1000"
    using assms(2) by (intro power_increasing) simp_all
  have "(2::real) ^ k / 2 ^ 53 \<le> 2 ^ k"
    by (simp add: field_simps)
  then have "\<bar>y\<bar> \<le> 2 ^ k + 2 ^ k"
    using close assms(1) by linarith
  also have "\<dots> \<le> 2 ^ 1000 + 2 ^ 1000"
    using k_le by linarith
  also have "\<dots> < (2::real) ^ 1024"
    by simp
  finally have "\<bar>y\<bar> < 2 ^ 1024" .
  then have "\<not> 2 powr 1024 \<le> \<bar>y\<bar>"
    by simp
  then have "round_double x = Num y"
    unfolding round_double_def Let_def u_def [symmetric] y_def [symmetric]
    using False by simp
  then show ?thesis using close by blast
qed

lemma round_double_eval:
  assumes "n \<le> 1074" and "2 ^ 52 / 2 ^ n \<le> \<bar>x\<bar>" and "\<bar>x\<bar> < 2 ^ 53 / 2 ^ n"
  shows "round_double x = Num (real_of_int (round_half_even (x * 2 ^ n)) / 2 ^ n)"
proof -
  define u :: real where "u = 1 / 2 ^ n"
  have u_pos: "0 < u" by (simp add: u_def)
  have u_powr: "u = 2 powr (- real n)"
    by (simp add: u_def powr_minus powr_realpow inverse_eq_divide)
  have x_pos: "0 < \<bar>x\<bar>"
    using assms(2) by (smt (verit) divide_pos_pos zero_less_numeral zero_less_power)
  then have x_nz: "x \<noteq> 0" by simp
  have "2 powr (52 - real n) \<le> \<bar>x\<bar>"
    using assms(2) by (simp add: powr_diff powr_realpow)
  then have lo: "52 - real n \<le> log 2 \<bar>x\<bar>"
    using x_pos by (simp add: le_log_iff)
  have "\<bar>x\<bar> < 2 powr (53 - real n)"
    using assms(3) by (simp add: powr_diff powr_realpow)
  then have hi: "log 2 \<bar>x\<bar> < 53 - real n"
    using x_pos by (simp add: log_less_iff)
  have "\<lfloor>log 2 \<bar>x\<bar>\<rfloor> = 52 - int n"
    using lo hi by (intro floor_unique) simp_all
  then have e: "double_exponent x = 52 - int n"
    using assms(1) by (simp add: double_exponent_def)
  have u_eq: "2 powr real_of_int (double_exponent x - 52) = u"
    by (simp add: e u_powr)
  define y where "y = u * real_of_int (round_half_even (x / u))"
  have "\<bar>real_of_int (round_half_even (x / u))\<bar> \<le> \<bar>x / u\<bar> + 1 / 2"
    using round_half_even_close [of "x / u"] by linarith
  moreover have "\<bar>x / u\<bar> < 2 ^ 53"
    using assms(3) by (simp add: u_def field_simps abs_mult)
  ultimately have "\<bar>real_of_int (round_half_even (x / u))\<bar> < 2 ^ 54"
    by simp
  then have "\<bar>y\<bar> < u * 2 ^ 54"
    using u_pos by (simp add: y_def abs_mult)
  also have "u \<le> 1"
    by (simp add: u_def)
  then have "u * 2 ^ 54 \<le> 2 ^ 54"
    by simp
  also have "(2::real) ^ 54 < 2 ^ 1024"
    by simp
  finally have "\<not> 2 powr 1024 \<le> \<bar>y\<bar>"
    by simp
  then have "round_double x = Num y"
    unfolding round_double_def Let_def u_eq y_def [symmetric]
    using x_nz by simp
  then show ?thesis
    by (simp add: y_def u_def)
qed

lemma round_double_0: "round_double 0 = Num 0"
  by (simp add: round_double_def)

lemma round_double_1: "round_double 1 = Num 1"
  using round_double_eval [of 52 1] by (simp add: round_half_even_def)

lemma round_double_cent: "round_double (1 / 100) = Num (5764607523034235 / 2 ^ 59)"
  using round_double_eval [of 59 "1 / 100"] by (simp add: round_half_even_def)

section \<open>Properties of the charge calculation\<close>

lemma ieee_ops [simp]:
  "num_add (ieee E) = ieee_add" "num_sub (ieee E) = ieee_sub"
  "num_mul (ieee E) = ieee_mul" "num_div (ieee E) = ieee_div"
  by (simp_all add: ieee_def)

lemma round2_ieee_zero: "round2 (ieee E) (Num 0) = Num 0"
  by (simp add: round2_def round_double_0)

lemma round2_ieee_close:
  assumes "\<bar>v\<bar> \<le> 2 ^ 29"
  shows "\<exists>n y. round2 (ieee E) (Num v) = Num y \<and>
               \<bar>real_of_int n - 100 * v\<bar> \<le> 1 / 2 + 1 / 2 ^ 16 \<and>
               \<bar>y - real_of_int n / 100\<bar> \<le> 1 / 2 ^ 23"
proof -
  have "\<bar>v * 100\<bar> \<le> 2 ^ 37"
    using assms by (simp add: abs_mult)
  then obtain p where p: "round_double (v * 100) = Num p" "\<bar>p - v * 100\<bar> \<le> 2 ^ 37 / 2 ^ 53"
    using round_double_close [of "v * 100" 37] by auto
  define n where "n = \<lfloor>p + 1 / 2\<rfloor>"
  have n: "\<bar>real_of_int n - p\<bar> \<le> 1 / 2"
    unfolding n_def by linarith
  have p2: "\<bar>p - v * 100\<bar> \<le> 1 / 65536"
    using p(2) by simp
  have v: "\<bar>v\<bar> \<le> 536870912"
    using assms by simp
  have "\<bar>real_of_int n / 100\<bar> \<le> 1073741824"
    using n p2 v by linarith
  then have "\<bar>real_of_int n / 100\<bar> \<le> 2 ^ 30"
    by simp
  then obtain y where y: "round_double (real_of_int n / 100) = Num y"
      "\<bar>y - real_of_int n / 100\<bar> \<le> 2 ^ 30 / 2 ^ 53"
    using round_double_close [of "real_of_int n / 100" 30] by auto
  have "round2 (ieee E) (Num v) = Num y"
    by (simp add: round2_def p(1) n_def [symmetric] y(1))
  moreover have "\<bar>real_of_int n - 100 * v\<bar> \<le> 1 / 2 + 1 / 65536"
    using n p2 by linarith
  then have "\<bar>real_of_int n - 100 * v\<bar> \<le> 1 / 2 + 1 / 2 ^ 16"
    by simp
  moreover have "\<bar>y - real_of_int n / 100\<bar> \<le> 1 / 2 ^ 23"
    using y(2) by simp
  ultimately show ?thesis by blast
qed

lemma total_near_parts:
  assumes "\<bar>real_of_int B / 100\<bar> \<le> 2 ^ 27" and "\<bar>t\<bar> \<le> 2 ^ 27" and "\<bar>x\<bar> \<le> 2 ^ 27"
  shows "\<exists>b total tc ec.
           round_double (real_of_int B / 100) = Num b \<and>
           round2 (ieee E) (ieee_add (ieee_add (Num b) (Num t)) (Num x)) = Num total \<and>
           round2 (ieee E) (Num t) = Num tc \<and>
           round2 (ieee E) (Num x) = Num ec \<and>
           \<bar>total - (b + tc + ec)\<bar> \<le> 1 / 100 + 1 / 2 ^ 20"
proof -
  have B: "\<bar>real_of_int B / 100\<bar> \<le> 134217728" and t: "\<bar>t\<bar> \<le> 134217728"
    and x: "\<bar>x\<bar> \<le> 134217728"
    using assms by simp_all
  obtain b where b: "round_double (real_of_int B / 100) = Num b"
      "\<bar>b - real_of_int B / 100\<bar> \<le> 2 ^ 27 / 2 ^ 53"
    using round_double_close [OF assms(1)] by auto
  have b2: "\<bar>b - real_of_int B / 100\<bar> \<le> 1 / 67108864"
    using b(2) by simp
  have "\<bar>b + t\<bar> \<le> 536870912"
    using b2 B t by linarith
  then have "\<bar>b + t\<bar> \<le> 2 ^ 29"
    by simp
  then obtain s1 where s1: "round_double (b + t) = Num s1" "\<bar>s1 - (b + t)\<bar> \<le> 2 ^ 29 / 2 ^ 53"
    using round_double_close [of "b + t" 29] by auto
  have s12: "\<bar>s1 - (b + t)\<bar> \<le> 1 / 16777216"
    using s1(2) by simp
  have "\<bar>s1 + x\<bar> \<le> 536870912"
    using s12 b2 B t x by linarith
  then have "\<bar>s1 + x\<bar> \<le> 2 ^ 29"
    by simp
  then obtain S where S: "round_double (s1 + x) = Num S" "\<bar>S - (s1 + x)\<bar> \<le> 2 ^ 29 / 2 ^ 53"
    using round_double_close [of "s1 + x" 29] by auto
  have S2: "\<bar>S - (s1 + x)\<bar> \<le> 1 / 16777216"
    using S(2) by simp
  have sum: "ieee_add (ieee_add (Num b) (Num t)) (Num x) = Num S"
    by (simp add: s1(1) S(1))
  have "\<bar>S\<bar> \<le> 536870912"
    using S2 s12 b2 B t x by linarith
  then have "\<bar>S\<bar> \<le> 2 ^ 29"
    by simp
  then obtain n1 total where n1: "round2 (ieee E) (Num S) = Num total"
      "\<bar>real_of_int n1 - 100 * S\<bar> \<le> 1 / 2 + 1 / 2 ^ 16"
      "\<bar>total - real_of_int n1 / 100\<bar> \<le> 1 / 2 ^ 23"
    using round2_ieee_close [of S E] by blast
  have "\<bar>t\<bar> \<le> 2 ^ 29"
    using t by simp
  then obtain n2 tc where n2: "round2 (ieee E) (Num t) = Num tc"
      "\<bar>real_of_int n2 - 100 * t\<bar> \<le> 1 / 2 + 1 / 2 ^ 16"
      "\<bar>tc - real_of_int n2 / 100\<bar> \<le> 1 / 2 ^ 23"
    using round2_ieee_close [of t E] by blast
  have "\<bar>x\<bar> \<le> 2 ^ 29"
    using x by simp
  then obtain n3 ec where n3: "round2 (ieee E) (Num x) = Num ec"
      "\<bar>real_of_int n3 - 100 * x\<bar> \<le> 1 / 2 + 1 / 2 ^ 16"
      "\<bar>ec - real_of_int n3 / 100\<bar> \<le> 1 / 2 ^ 23"
    using round2_ieee_close [of x E] by blast
  have m1: "\<bar>real_of_int n1 - 100 * S\<bar> \<le> 1 / 2 + 1 / 65536"
    and m2: "\<bar>real_of_int n2 - 100 * t\<bar> \<le> 1 / 2 + 1 / 65536"
    and m3: "\<bar>real_of_int n3 - 100 * x\<bar> \<le> 1 / 2 + 1 / 65536"
    using n1(2) n2(2) n3(2) by simp_all
  have q1: "\<bar>total - real_of_int n1 / 100\<bar> \<le> 1 / 8388608"
    and q2: "\<bar>tc - real_of_int n2 / 100\<bar> \<le> 1 / 8388608"
    and q3: "\<bar>ec - real_of_int n3 / 100\<bar> \<le> 1 / 8388608"
    using n1(3) n2(3) n3(3) by simp_all
  define K where "K = n1 - B - n2 - n3"
  have K_real: "real_of_int K = real_of_int n1 - real_of_int B - real_of_int n2 - real_of_int n3"
    by (simp add: K_def)
  have "real_of_int K < 2"
    unfolding K_real using m1 m2 m3 S2 s12 b2 by linarith
  moreover have "- 2 < real_of_int K"
    unfolding K_real using m1 m2 m3 S2 s12 b2 by linarith
  ultimately have "K \<le> 1" and "- 1 \<le> K"
    by linarith+
  then have K: "\<bar>real_of_int K\<bar> \<le> 1"
    by linarith
  have "\<bar>total - (b + tc + ec)\<bar> \<le> 1 / 100 + 1 / 1048576"
    using K q1 q2 q3 b2 unfolding K_real by linarith
  then have "\<bar>total - (b + tc + ec)\<bar> \<le> 1 / 100 + 1 / 2 ^ 20"
    by simp
  then have "round_double (real_of_int B / 100) = Num b \<and>
           round2 (ieee E) (ieee_add (ieee_add (Num b) (Num t)) (Num x)) = Num total \<and>
           round2 (ieee E) (Num t) = Num tc \<and>
           round2 (ieee E) (Num x) = Num ec \<and>
           \<bar>total - (b + tc + ec)\<bar> \<le> 1 / 100 + 1 / 2 ^ 20"
    using b(1) n1(1) n2(1) n3(1) unfolding sum by blast
  then show ?thesis by blast
qed

text \<open>
  C1, as the code has it. For every distance \<open>d \<ge> 0\<close>, every weight and every
  configuration, with the operators of IEEE 754: the rate is that of the band of \<open>d\<close>;
  \<open>transportCharge\<close> is \<open>round2\<close> of the product \<open>d * rate * w\<close>, \<open>expressCharge\<close> is
  \<open>round2\<close> of the product \<open>e * w\<close> when the speed is "express" and 0 otherwise,
  \<open>baseCharge\<close> is \<open>b\<close> as it is, not rounded, and \<open>shippingCharge\<close> is \<open>round2\<close> of the
  sum of \<open>b\<close> and the two unrounded charges; every product, every sum and \<open>round2\<close>
  itself (\<open>Math.round(x * 100) / 100\<close>) being computed in doubles. When \<open>b\<close> is the
  double nearest to a whole number of hundredths, and \<open>b\<close> and the two unrounded charges
  are finite and at most \<open>2 ^ 27\<close> in magnitude, all four outputs are finite and
  \<open>shippingCharge\<close> is within \<open>0.01 + 2 ^ -20\<close> of the sum of the three fields of the
  breakdown.
\<close>

theorem charge_breakdown:
  assumes "0 \<le> d"
  shows "case getTransportModeAndRate (Num d) of
           Inl err \<Rightarrow> False
         | Inr (mode, rate) \<Rightarrow>
             rate = Num (if d < 100 then 3 else if d < 500 then 2 else 1) \<and>
             (let r = charge_result (ieee E) (Num d) mode rate w cfg speed;
                  transport = ieee_mul (ieee_mul (Num d) rate) w;
                  express = (if speed = ''express''
                             then ieee_mul (extra_charge_per_kg cfg) w else Num 0)
              in transportCharge (breakdown r) = round2 (ieee E) transport \<and>
                 expressCharge (breakdown r) =
                   (if speed = ''express'' then round2 (ieee E) express else Num 0) \<and>
                 baseCharge (breakdown r) = base_charge cfg \<and>
                 shippingCharge r =
                   round2 (ieee E) (ieee_add (ieee_add (base_charge cfg) transport) express) \<and>
                 (\<forall>B t x.
                    base_charge cfg = round_double (real_of_int B / 100) \<and>
                    transport = Num t \<and> express = Num x \<and>
                    \<bar>real_of_int B / 100\<bar> \<le> 2 ^ 27 \<and> \<bar>t\<bar> \<le> 2 ^ 27 \<and> \<bar>x\<bar> \<le> 2 ^ 27 \<longrightarrow>
                    (\<exists>total b tc ec.
                       shippingCharge r = Num total \<and>
                       baseCharge (breakdown r) = Num b \<and>
                       transportCharge (breakdown r) = Num tc \<and>
                       expressCharge (breakdown r) = Num ec \<and>
                       \<bar>total - (b + tc + ec)\<bar> \<le> 1 / 100 + 1 / 2 ^ 20)))"
proof -
  define rate where "rate = Num (if d < 100 then 3 else if d < 500 then 2 else 1)"
  define mode where
    "mode = (if d < 100 then ''Mini Van'' else if d < 500 then ''Truck'' else ''Aeroplane'')"
  define transport where "transport = ieee_mul (ieee_mul (Num d) rate) w"
  define express where
    "express = (if speed = ''express'' then ieee_mul (extra_charge_per_kg cfg) w else Num 0)"
  define r where "r = charge_result (ieee E) (Num d) mode rate w cfg speed"
  have sel: "getTransportModeAndRate (Num d) = Inr (mode, rate)"
    using getTransportModeAndRate_nonneg [OF assms] by (simp add: mode_def rate_def)
  have r: "r = \<lparr>shippingCharge =
                   round2 (ieee E) (ieee_add (ieee_add (base_charge cfg) transport) express),
                 transportMode = mode, distance_km = round2 (ieee E) (Num d), weight_kg = w,
                 breakdown = \<lparr>baseCharge = base_charge cfg,
                              transportCharge = round2 (ieee E) transport,
                              expressCharge = round2 (ieee E) express\<rparr>\<rparr>"
    by (simp add: r_def charge_result_def Let_def transport_def express_def)
  have ex: "round2 (ieee E) express =
              (if speed = ''express'' then round2 (ieee E) express else Num 0)"
    by (simp add: express_def round2_ieee_zero)
  have bound: "\<exists>total b tc ec.
                 shippingCharge r = Num total \<and>
                 baseCharge (breakdown r) = Num b \<and>
                 transportCharge (breakdown r) = Num tc \<and>
                 expressCharge (breakdown r) = Num ec \<and>
                 \<bar>total - (b + tc + ec)\<bar> \<le> 1 / 100 + 1 / 2 ^ 20"
    if h: "base_charge cfg = round_double (real_of_int B / 100)"
      "transport = Num t" "express = Num x"
      "\<bar>real_of_int B / 100\<bar> \<le> 2 ^ 27" "\<bar>t\<bar> \<le> 2 ^ 27" "\<bar>x\<bar> \<le> 2 ^ 27" for B t x
  proof -
    obtain b total tc ec where
      "round_double (real_of_int B / 100) = Num b"
      "round2 (ieee E) (ieee_add (ieee_add (Num b) (Num t)) (Num x)) = Num total"
      "round2 (ieee E) (Num t) = Num tc"
      "round2 (ieee E) (Num x) = Num ec"
      "\<bar>total - (b + tc + ec)\<bar> \<le> 1 / 100 + 1 / 2 ^ 20"
      using total_near_parts [OF h(4,5,6), of E] by blast
    then show ?thesis
      unfolding r using h(1,2,3) by simp
  qed
  have body:
    "rate = Num (if d < 100 then 3 else if d < 500 then 2 else 1) \<and>
     (let r = charge_result (ieee E) (Num d) mode rate w cfg speed;
          transport = ieee_mul (ieee_mul (Num d) rate) w;
          express = (if speed = ''express''
                     then ieee_mul (extra_charge_per_kg cfg) w else Num 0)
      in transportCharge (breakdown r) = round2 (ieee E) transport \<and>
         expressCharge (breakdown r) =
           (if speed = ''express'' then round2 (ieee E) express else Num 0) \<and>
         baseCharge (breakdown r) = base_charge cfg \<and>
         shippingCharge r =
           round2 (ieee E) (ieee_add (ieee_add (base_charge cfg) transport) express) \<and>
         (\<forall>B t x.
            base_charge cfg = round_double (real_of_int B / 100) \<and>
            transport = Num t \<and> express = Num x \<and>
            \<bar>real_of_int B / 100\<bar> \<le> 2 ^ 27 \<and> \<bar>t\<bar> \<le> 2 ^ 27 \<and> \<bar>x\<bar> \<le> 2 ^ 27 \<longrightarrow>
            (\<exists>total b tc ec.
               shippingCharge r = Num total \<and>
               baseCharge (breakdown r) = Num b \<and>
               transportCharge (breakdown r) = Num tc \<and>
               expressCharge (breakdown r) = Num ec \<and>
               \<bar>total - (b + tc + ec)\<bar> \<le> 1 / 100 + 1 / 2 ^ 20)))"
    unfolding Let_def r_def [symmetric] transport_def [symmetric] express_def [symmetric]
  proof (intro conjI allI impI)
    show "rate = Num (if d < 100 then 3 else if d < 500 then 2 else 1)"
      by (rule rate_def)
    show "transportCharge (breakdown r) = round2 (ieee E) transport"
      by (simp add: r)
    show "expressCharge (breakdown r) =
            (if speed = ''express'' then round2 (ieee E) express else Num 0)"
      using ex by (simp add: r)
    show "baseCharge (breakdown r) = base_charge cfg"
      by (simp add: r)
    show "shippingCharge r =
            round2 (ieee E) (ieee_add (ieee_add (base_charge cfg) transport) express)"
      by (simp add: r)
    fix B t x
    assume "base_charge cfg = round_double (real_of_int B / 100) \<and>
            transport = Num t \<and> express = Num x \<and>
            \<bar>real_of_int B / 100\<bar> \<le> 2 ^ 27 \<and> \<bar>t\<bar> \<le> 2 ^ 27 \<and> \<bar>x\<bar> \<le> 2 ^ 27"
    then show "\<exists>total b tc ec.
               shippingCharge r = Num total \<and>
               baseCharge (breakdown r) = Num b \<and>
               transportCharge (breakdown r) = Num tc \<and>
               expressCharge (breakdown r) = Num ec \<and>
               \<bar>total - (b + tc + ec)\<bar> \<le> 1 / 100 + 1 / 2 ^ 20"
      using bound by blast
  qed
  show ?thesis
    unfolding sel by (simp only: sum.case prod.case) (rule body)
qed

lemma cent_values:
  "round_double (5764607523034235 / 2 ^ 59 * (1 / 2)) = Num (5764607523034235 / 2 ^ 60)"
  "round_double (1 + 5764607523034235 / 2 ^ 60) = Num (4526117625507348 / 2 ^ 52)"
  "round_double (4526117625507348 / 2 ^ 52 * 100) = Num (7072058789855231 / 2 ^ 46)"
  "round_double (5764607523034235 / 2 ^ 60 * 100) = Num (1 / 2)"
  using round_double_eval [of 60 "5764607523034235 / 2 ^ 59 * (1 / 2)"]
        round_double_eval [of 52 "1 + 5764607523034235 / 2 ^ 60"]
        round_double_eval [of 46 "4526117625507348 / 2 ^ 52 * 100"]
        round_double_eval [of 53 "5764607523034235 / 2 ^ 60 * 100"]
  by (simp_all add: round_half_even_def)

text \<open>
  C1, as the claim has it, fails in its last part: with a base charge of 1, an extra charge
  per kilogram of 0.01 (the double nearest to it), a weight of 0.5 kg and a distance of 0,
  express, the total is \<open>round2 (1.005) = 1\<close> and the fields of the breakdown are 1, 0 and
  \<open>round2 (0.005) = 0.01\<close>, the double nearest to it, which is greater than one
  hundredth: the total and the sum of the fields differ by more than 0.01.
\<close>

theorem charge_total_counterexample:
  "shippingCharge (charge_result (ieee exact_engine) (Num 0) ''Mini Van'' (Num 3) (Num (1 / 2))
                     cent_config ''express'') = Num 1 \<and>
   breakdown (charge_result (ieee exact_engine) (Num 0) ''Mini Van'' (Num 3) (Num (1 / 2))
                cent_config ''express'') =
     \<lparr>baseCharge = Num 1, transportCharge = Num 0,
      expressCharge = Num (5764607523034235 / 2 ^ 59)\<rparr> \<and>
   \<not> \<bar>1 - (1 + 0 + 5764607523034235 / 2 ^ 59)\<bar> \<le> (1 / 100 :: real)"
  using cent_values round_double_cent round_double_1 round_double_0
  by (simp add: charge_result_def round2_def cent_config_def Let_def)

lemma v3_values:
  "round_double (115 / 100) = Num (5179139571476070 / 2 ^ 52)"
  "round_double (5179139571476070 / 2 ^ 52 * (1 / 2)) = Num (5179139571476070 / 2 ^ 53)"
  "round_double 10 = Num 10"
  "round_double (10 + 5179139571476070 / 2 ^ 53) = Num (5953195757430374 / 2 ^ 49)"
  "round_double (5953195757430374 / 2 ^ 49 * 100) = Num (4650934185492480 / 2 ^ 42)"
  "round_double (1058 / 100) = Num (5956010507197481 / 2 ^ 49)"
  "round_double (5179139571476070 / 2 ^ 53 * 100) = Num (8092405580431359 / 2 ^ 47)"
  "round_double (57 / 100) = Num (5134103575202365 / 2 ^ 53)"
  using round_double_eval [of 52 "115 / 100"]
        round_double_eval [of 53 "5179139571476070 / 2 ^ 52 * (1 / 2)"]
        round_double_eval [of 49 10]
        round_double_eval [of 49 "10 + 5179139571476070 / 2 ^ 53"]
        round_double_eval [of 42 "5953195757430374 / 2 ^ 49 * 100"]
        round_double_eval [of 49 "1058 / 100"]
        round_double_eval [of 47 "5179139571476070 / 2 ^ 53 * 100"]
        round_double_eval [of 53 "57 / 100"]
  by (simp_all add: round_half_even_def)

theorem charge_breakdown_witness:
  "getTransportModeAndRate (Num 0) = Inr (''Mini Van'', Num 3) \<and>
   shippingCharge (charge_result (ieee exact_engine) (Num 0) ''Mini Van'' (Num 3) (Num (1 / 2))
                     v3_config ''express'') = Num (5956010507197481 / 2 ^ 49) \<and>
   breakdown (charge_result (ieee exact_engine) (Num 0) ''Mini Van'' (Num 3) (Num (1 / 2))
                v3_config ''express'') =
     \<lparr>baseCharge = Num 10, transportCharge = Num 0,
      expressCharge = Num (5134103575202365 / 2 ^ 53)\<rparr> \<and>
   \<bar>5956010507197481 / 2 ^ 49 - (10 + 0 + 5134103575202365 / 2 ^ 53)\<bar>
     \<le> (1 / 100 + 1 / 2 ^ 20 :: real)"
proof -
  let ?r = "charge_result (ieee exact_engine) (Num 0) ''Mini Van'' (Num 3) (Num (1 / 2))
              v3_config ''express''"
  have sel: "getTransportModeAndRate (Num 0) = Inr (''Mini Van'', Num 3)"
    using getTransportModeAndRate_nonneg [of 0] by simp
  have total: "shippingCharge ?r = Num (5956010507197481 / 2 ^ 49)"
    using v3_values round_double_0
    by (simp add: charge_result_def round2_def v3_config_def Let_def)
  have parts: "breakdown ?r =
     \<lparr>baseCharge = Num 10, transportCharge = Num 0,
      expressCharge = Num (5134103575202365 / 2 ^ 53)\<rparr>"
    using v3_values round_double_0
    by (simp add: charge_result_def round2_def v3_config_def Let_def)
  have h: "base_charge v3_config = round_double (real_of_int 1000 / 100) \<and>
           ieee_mul (ieee_mul (Num 0) (Num 3)) (Num (1 / 2)) = Num 0 \<and>
           ieee_mul (extra_charge_per_kg v3_config) (Num (1 / 2)) = Num (5179139571476070 / 2 ^ 53) \<and>
           \<bar>real_of_int 1000 / 100\<bar> \<le> 2 ^ 27 \<and> \<bar>0 :: real\<bar> \<le> 2 ^ 27 \<and>
           \<bar>5179139571476070 / 2 ^ 53 :: real\<bar> \<le> 2 ^ 27"
    using v3_values round_double_0 by (simp add: v3_config_def)
  have z: "(0::real) \<le> 0" by simp
  note cb = charge_breakdown [OF z, where E = exact_engine and w = "Num (1 / 2)"
      and cfg = v3_config and speed = "''express''"]
  have "\<forall>B t x.
          base_charge v3_config = round_double (real_of_int B / 100) \<and>
          ieee_mul (ieee_mul (Num 0) (Num 3)) (Num (1 / 2)) = Num t \<and>
          ieee_mul (extra_charge_per_kg v3_config) (Num (1 / 2)) = Num x \<and>
          \<bar>real_of_int B / 100\<bar> \<le> 2 ^ 27 \<and> \<bar>t\<bar> \<le> 2 ^ 27 \<and> \<bar>x\<bar> \<le> 2 ^ 27 \<longrightarrow>
          (\<exists>total b tc ec.
             shippingCharge ?r = Num total \<and>
             baseCharge (breakdown ?r) = Num b \<and>
             transportCharge (breakdown ?r) = Num tc \<and>
             expressCharge (breakdown ?r) = Num ec \<and>
             \<bar>total - (b + tc + ec)\<bar> \<le> 1 / 100 + 1 / 2 ^ 20)"
    using cb unfolding sel sum.case prod.case Let_def simp_thms if_True by blast
  then obtain t b tc ec where
    "shippingCharge ?r = Num t" "baseCharge (breakdown ?r) = Num b"
    "transportCharge (breakdown ?r) = Num tc" "expressCharge (breakdown ?r) = Num ec"
    "\<bar>t - (b + tc + ec)\<bar> \<le> 1 / 100 + 1 / 2 ^ 20"
    using h by blast
  then have "\<bar>5956010507197481 / 2 ^ 49 - (10 + 0 + 5134103575202365 / 2 ^ 53)\<bar>
     \<le> (1 / 100 + 1 / 2 ^ 20 :: real)"
    unfolding total parts by simp
  then show ?thesis
    using sel total parts by simp
qed

end
